theory Spec2Isabelle
  imports Complex_Main "HOL-Library.Sublist"
begin

chapter \<open>GPU rental orchestration for Demucs audio separation\<close>

text \<open>
  A shallow embedding of the repository's four Python files: the service API that runs
  on a rented instance (\<^verbatim>\<open>server.py\<close>), the two marketplace clients
  (\<^verbatim>\<open>vastai_client.py\<close>, \<^verbatim>\<open>runpod_client.py\<close>) and the batch
  launcher (\<^verbatim>\<open>test_concurrent_instances.py\<close>).

  Everything the Python reads from outside the process (HTTP answers of the marketplace and
  of the instance, the file system, the clock) is a parameter of the model: an environment
  record whose fields give the answer to each call.  Exceptions are values of a sum type,
  \<open>Inl\<close> carrying the exception.  Loops that poll on a wall-clock bound are recursive
  functions over the elapsed seconds.
\<close>

section \<open>Calls to the outside\<close>

text \<open>
  A blocking HTTP call either raises (a \<^verbatim>\<open>requests\<close> exception: connection error,
  timeout, \<^verbatim>\<open>raise_for_status\<close> on a 4xx/5xx answer, undecodable body) or returns
  the decoded body.
\<close>

datatype 'a answer = Raises string | Returns 'a

text \<open>
  The Python exceptions the clients raise or let through.  \<open>message\<close> is \<^verbatim>\<open>str(e)\<close>.
  \<^verbatim>\<open>SystemExit\<close> is not an \<^verbatim>\<open>Exception\<close>: no \<^verbatim>\<open>except Exception\<close> catches it.
\<close>

datatype exn =
    Exception string
  | RequestException string
  | TimeoutError string
  | AttributeError string
  | TypeError string
  | ZeroDivisionError string
  | JSONDecodeError string
  | OSError string
  | SystemExit nat

fun message :: "exn \<Rightarrow> string" where
  "message (Exception m) = m"
| "message (RequestException m) = m"
| "message (TimeoutError m) = m"
| "message (AttributeError m) = m"
| "message (TypeError m) = m"
| "message (ZeroDivisionError m) = m"
| "message (JSONDecodeError m) = m"
| "message (OSError m) = m"
| "message (SystemExit n) = []"

text \<open>
  What Python says when a method is called on \<^verbatim>\<open>None\<close>, or \<^verbatim>\<open>None\<close> is iterated:
  the JSON value \<^verbatim>\<open>null\<close> where the client expects an object or a list.  The texts
  have single quotes in them, character 0x27.
\<close>

definition NoneType_has_no_get :: string where
  "NoneType_has_no_get =
     [CHR 0x27] @ ''NoneType'' @ [CHR 0x27] @ '' object has no attribute '' @
     [CHR 0x27] @ ''get'' @ [CHR 0x27]"

definition NoneType_not_iterable :: string where
  "NoneType_not_iterable = [CHR 0x27] @ ''NoneType'' @ [CHR 0x27] @ '' object is not iterable''"

text \<open>Decimal rendering of a number inside an f-string.\<close>

fun str_nat :: "nat \<Rightarrow> string" where
  "str_nat n =
     (if n < 10 then [''0123456789'' ! n]
      else str_nat (n div 10) @ [''0123456789'' ! (n mod 10)])"

definition str_int :: "int \<Rightarrow> string" where
  "str_int i = (if i < 0 then CHR ''-'' # str_nat (nat (- i)) else str_nat (nat i))"

text \<open>
  \<^verbatim>\<open>str.lower()\<close> on ASCII text, and \<^verbatim>\<open>needle in haystack\<close> on strings.  A capital
  letter has code 65 to 90, where bit 5 is clear; adding 32 sets it.
\<close>

definition lower_char :: "char \<Rightarrow> char" where
  "lower_char c =
     (let n = (of_char c :: nat) in
      if 65 \<le> n \<and> n \<le> 90
      then Char (digit0 c) (digit1 c) (digit2 c) (digit3 c) (digit4 c) True (digit6 c) (digit7 c)
      else c)"

definition lower :: "string \<Rightarrow> string" where
  "lower s = map lower_char s"

definition contains :: "string \<Rightarrow> string \<Rightarrow> bool" where
  "contains haystack needle = sublist needle haystack"

section \<open>Vast.ai client (\<^verbatim>\<open>vastai_client.py\<close>)\<close>

subsection \<open>Offers\<close>

text \<open>
  An offer as the marketplace sends it (every key may be missing) and as
  \<^verbatim>\<open>search_offers\<close> stores it.  Of the ten keys the ones the orchestration reads are
  kept: id, name, GPU memory, price and reliability.  Prices and reliabilities are Python
  floats; here they are exact rationals.  The memory bound \<^verbatim>\<open>MIN_VRAM_GB\<close> is part of
  the query sent to the marketplace only: the answer is not checked against it.
\<close>

record raw_offer =
  raw_id :: int
  raw_gpu_name :: "string option"
  raw_gpu_ram :: "rat option"
  raw_dph_total :: "rat option"
  raw_reliability2 :: "rat option"

record vast_offer =
  o_id :: int
  o_gpu_name :: string
  o_gpu_ram :: rat
  o_price_per_hour :: rat
  o_reliability :: rat

definition parse_offer :: "raw_offer \<Rightarrow> vast_offer" where
  "parse_offer offer =
     \<lparr>o_id = raw_id offer,
      o_gpu_name = (case raw_gpu_name offer of None \<Rightarrow> ''Unknown'' | Some n \<Rightarrow> n),
      o_gpu_ram = (case raw_gpu_ram offer of None \<Rightarrow> 0 | Some m \<Rightarrow> m) / 1024,
      o_price_per_hour = (case raw_dph_total offer of None \<Rightarrow> 999 | Some p \<Rightarrow> p),
      o_reliability = (case raw_reliability2 offer of None \<Rightarrow> 0 | Some r \<Rightarrow> r)\<rparr>"

text \<open>
  \<^verbatim>\<open>search_offers\<close>: the argument is the answer to \<^verbatim>\<open>GET /bundles/\<close>, \<open>None\<close> standing
  for an empty body or one without the key \<^verbatim>\<open>offers\<close>.  Every exception is caught and
  gives the empty list.
\<close>

definition search_offers :: "raw_offer list option answer \<Rightarrow> nat \<Rightarrow> vast_offer list" where
  "search_offers response max_results =
     (case response of
        Raises e \<Rightarrow> []
      | Returns None \<Rightarrow> []
      | Returns (Some offers) \<Rightarrow> map parse_offer (take max_results offers))"

text \<open>
  \<^verbatim>\<open>get_ranked_offers\<close>.  \<^verbatim>\<open>list.sort\<close> is stable, as \<^const>\<open>sort_key\<close> is.
\<close>

definition get_ranked_offers :: "raw_offer list option answer \<Rightarrow> nat \<Rightarrow> vast_offer list" where
  "get_ranked_offers response max_results =
     (let offers = search_offers response (max_results * 2) in
      if offers = [] then []
      else take max_results
             (sort_key o_price_per_hour (filter (\<lambda>offer. o_reliability offer \<ge> 9 / 10) offers)))"

subsection \<open>The world around the Vast.ai client\<close>

text \<open>
  What the client reads from outside: the API key of the environment and the marketplace's
  answers.  The answers to PUT, DELETE and to the polling GET may depend on the number of the
  call and on the id asked for.  \<open>health_answer\<close> is \<^verbatim>\<open>requests.get(api_url + "/health")\<close>
  at a given poll: the status code, or an exception.  \<open>poll_seconds k\<close> is the wall-clock
  time the calls of poll \<open>k\<close> take, on top of the loop's own \<^verbatim>\<open>time.sleep\<close>; time is
  counted in whole seconds.
\<close>

text \<open>
  The body of the answer to \<^verbatim>\<open>PUT /asks/{offer_id}/\<close>: whether \<^verbatim>\<open>success\<close> is truthy,
  the new contract number and the text Python prints for the dictionary.
\<close>

record put_result =
  put_success :: bool
  put_new_contract :: int
  put_repr :: string

text \<open>
  What the marketplace says of an instance.  A binding of a port is an object, whose
  \<^verbatim>\<open>HostPort\<close> may be missing, or \<^verbatim>\<open>null\<close>.  The key \<^verbatim>\<open>ports\<close> is missing, or
  is there with \<^verbatim>\<open>null\<close>, or with a map from port names to lists of bindings.  An entry of
  a list of instances is an instance or \<^verbatim>\<open>null\<close>.
\<close>

datatype port_binding = NullBinding | HostPort "string option"

datatype ports_json =
    PortsMissing
  | PortsNull
  | PortsMap "string \<rightharpoonup> port_binding list"

record raw_instance =
  ri_actual_status :: "string option"
  ri_public_ipaddr :: "string option"
  ri_ports :: ports_json

datatype instances_data =
    InstanceObject raw_instance
  | InstanceList "raw_instance option list"
  | InstanceOther

record vast_env =
  VASTAI_API_KEY :: "string option"
  bundles_answer :: "raw_offer list option answer"
  put_answer :: "nat \<Rightarrow> int \<Rightarrow> put_result answer"
  delete_answer :: "nat \<Rightarrow> int \<Rightarrow> bool option answer"
  datetime_now :: "nat \<Rightarrow> string"
  instance_answer :: "nat \<Rightarrow> int \<Rightarrow> instances_data option answer"
  health_answer :: "nat \<Rightarrow> string \<Rightarrow> nat answer"
  poll_seconds :: "nat \<Rightarrow> nat"

subsection \<open>Creating and destroying an instance\<close>

record created =
  c_id :: int
  c_offer_id :: int
  c_success :: bool

text \<open>
  \<^verbatim>\<open>create_instance\<close>: any failure, its own refusal included, leaves as a plain
  \<^verbatim>\<open>Exception\<close>; the kind of failure is not told apart.
\<close>

definition create_instance :: "put_result answer \<Rightarrow> int \<Rightarrow> exn + created" where
  "create_instance response offer_id =
     (case response of
        Raises e \<Rightarrow> Inl (Exception (''Failed to create instance: '' @ e))
      | Returns result \<Rightarrow>
          if put_success result then
            Inr \<lparr>c_id = put_new_contract result, c_offer_id = offer_id, c_success = True\<rparr>
          else
            Inl (Exception (''Failed to create instance: Failed to create instance: '' @ put_repr result)))"

text \<open>
  \<^verbatim>\<open>destroy_instance\<close>: the answer to \<^verbatim>\<open>DELETE /instances/{id}/\<close> carries an optional
  \<^verbatim>\<open>success\<close> flag.  The method never raises.
\<close>

definition destroy_instance :: "bool option answer \<Rightarrow> bool" where
  "destroy_instance response =
     (case response of
        Raises e \<Rightarrow> False
      | Returns None \<Rightarrow> False
      | Returns (Some success) \<Rightarrow> success)"

subsection \<open>Waiting for the instance\<close>

text \<open>
  \<^verbatim>\<open>get_instance\<close> as \<^verbatim>\<open>wait_for_instance_ready\<close> reads it: status, public address
  and port map.  The argument is the answer to \<^verbatim>\<open>GET /instances/{id}/\<close>, \<open>None\<close> when the
  body has no key \<^verbatim>\<open>instances\<close>.  \<open>iv_ports\<close> is what
  \<^verbatim>\<open>instance.get("ports", {})\<close> gives: the empty map when the key is missing, \<open>None\<close>
  when the marketplace sent \<^verbatim>\<open>null\<close>.  Every exception is caught and gives the status
  \<^verbatim>\<open>error\<close>; so does a list whose first entry is \<^verbatim>\<open>null\<close>, \<^verbatim>\<open>instance.get\<close>
  failing inside the \<^verbatim>\<open>try\<close>.
\<close>

record instance_view =
  iv_status :: string
  iv_public_ipaddr :: "string option"
  iv_ports :: "(string \<rightharpoonup> port_binding list) option"

definition view_of :: "raw_instance \<Rightarrow> instance_view" where
  "view_of inst =
     \<lparr>iv_status = (case ri_actual_status inst of None \<Rightarrow> ''unknown'' | Some st \<Rightarrow> st),
      iv_public_ipaddr = ri_public_ipaddr inst,
      iv_ports = (case ri_ports inst of
                    PortsMissing \<Rightarrow> Some Map.empty
                  | PortsNull \<Rightarrow> None
                  | PortsMap m \<Rightarrow> Some m)\<rparr>"

definition get_instance :: "instances_data option answer \<Rightarrow> instance_view" where
  "get_instance response =
     (case response of
        Raises e \<Rightarrow>
          \<lparr>iv_status = ''error'', iv_public_ipaddr = None, iv_ports = Some Map.empty\<rparr>
      | Returns None \<Rightarrow>
          \<lparr>iv_status = ''not_found'', iv_public_ipaddr = None, iv_ports = Some Map.empty\<rparr>
      | Returns (Some (InstanceObject inst)) \<Rightarrow> view_of inst
      | Returns (Some (InstanceList (Some inst # rest))) \<Rightarrow> view_of inst
      | Returns (Some (InstanceList (None # rest))) \<Rightarrow>
          \<lparr>iv_status = ''error'', iv_public_ipaddr = None, iv_ports = Some Map.empty\<rparr>
      | Returns (Some other) \<Rightarrow>
          \<lparr>iv_status = ''not_found'', iv_public_ipaddr = None, iv_ports = Some Map.empty\<rparr>)"

text \<open>
  The address the port map gives for port 8185, when the instance is running, has a public
  address and a first binding with a host port.  On a running instance
  \<^verbatim>\<open>ports_map.get("8185/tcp")\<close> comes before anything else and fails when the ports are
  \<^verbatim>\<open>null\<close>; \<^verbatim>\<open>api_port_info[0].get("HostPort")\<close> fails when the first binding is
  \<^verbatim>\<open>null\<close>.  Neither is inside a \<^verbatim>\<open>try\<close>.
\<close>

definition mapped_url :: "instance_view \<Rightarrow> exn + string option" where
  "mapped_url inst =
     (if iv_status inst = ''running'' then
        (case iv_ports inst of
           None \<Rightarrow> Inl (AttributeError NoneType_has_no_get)
         | Some ports_map \<Rightarrow>
             (case iv_public_ipaddr inst of
                None \<Rightarrow> Inr None
              | Some public_ip \<Rightarrow>
                  if public_ip = [] then Inr None
                  else
                    (case ports_map ''8185/tcp'' of
                       None \<Rightarrow> Inr None
                     | Some [] \<Rightarrow> Inr None
                     | Some (NullBinding # others) \<Rightarrow> Inl (AttributeError NoneType_has_no_get)
                     | Some (HostPort None # others) \<Rightarrow> Inr None
                     | Some (HostPort (Some external_port) # others) \<Rightarrow>
                         if external_port = [] then Inr None
                         else Inr (Some (''http://'' @ public_ip @ '':'' @ external_port)))))
      else Inr None)"

text \<open>
  One pass of the loop of \<^verbatim>\<open>wait_for_instance_ready\<close>: the URL when the health probe
  answers 200; a probe that raises or answers anything else is passed over.
\<close>

definition ready_now :: "vast_env \<Rightarrow> nat \<Rightarrow> int \<Rightarrow> exn + string option" where
  "ready_now env k instance_id =
     (case mapped_url (get_instance (instance_answer env k instance_id)) of
        Inl e \<Rightarrow> Inl e
      | Inr None \<Rightarrow> Inr None
      | Inr (Some api_url) \<Rightarrow>
          (case health_answer env k api_url of
             Raises e \<Rightarrow> Inr None
           | Returns code \<Rightarrow> if code = 200 then Inr (Some api_url) else Inr None))"

text \<open>
  \<^verbatim>\<open>wait_for_instance_ready\<close>: \<open>k\<close> counts the polls, \<open>elapsed\<close> is
  \<^verbatim>\<open>time.time() - start\<close>.  On timeout the method returns \<^verbatim>\<open>None\<close>.
\<close>

function wait_for_instance_ready_loop :: "vast_env \<Rightarrow> int \<Rightarrow> nat \<Rightarrow> nat \<Rightarrow> nat \<Rightarrow> exn + string option" where
  "wait_for_instance_ready_loop env instance_id timeout k elapsed =
     (if elapsed < timeout then
        (case ready_now env k instance_id of
           Inl e \<Rightarrow> Inl e
         | Inr (Some api_url) \<Rightarrow> Inr (Some api_url)
         | Inr None \<Rightarrow>
             wait_for_instance_ready_loop env instance_id timeout (Suc k)
               (elapsed + poll_seconds env k + 10))
      else Inr None)"
  by pat_completeness auto
termination
  by (relation "measure (\<lambda>(env, instance_id, timeout, k, elapsed). timeout - elapsed)") auto

declare wait_for_instance_ready_loop.simps [simp del]

definition wait_for_instance_ready :: "vast_env \<Rightarrow> int \<Rightarrow> nat \<Rightarrow> exn + string option" where
  "wait_for_instance_ready env instance_id timeout =
     wait_for_instance_ready_loop env instance_id timeout 0 0"

section \<open>Client of the service API (\<^verbatim>\<open>DemucsClient\<close>)\<close>

text \<open>
  The answers of the instance's service API, and of the local file system when the result is
  stored.  The answers to the polling calls depend on the number of the poll; a log fetch
  also on the byte offset asked for.  \<open>job_poll_seconds\<close> is the time the calls of one poll
  take.
\<close>

record details =
  completed_segments :: "int option"
  total_segments :: "int option"

record job_status_json =
  js_status :: string
  js_error :: "string option"
  js_details :: "details option"

record log_data =
  ld_logs :: "string option"
  ld_offset :: "nat option"

record demucs_env =
  server_status_answer :: "nat \<Rightarrow> bool answer"
  post_job_answer :: "string answer"
  job_status_answer :: "nat \<Rightarrow> string \<Rightarrow> job_status_json answer"
  job_logs_answer :: "nat \<Rightarrow> string \<Rightarrow> nat \<Rightarrow> log_data answer"
  result_answer :: "string \<Rightarrow> string answer"
  mkdir_error :: "string option"
  job_poll_seconds :: "nat \<Rightarrow> nat"

text \<open>\<^verbatim>\<open>create_job\<close> of the client: the job id of the answer, or the exception.\<close>

definition post_job :: "demucs_env \<Rightarrow> exn + string" where
  "post_job denv =
     (case post_job_answer denv of
        Raises e \<Rightarrow> Inl (RequestException e)
      | Returns job_id \<Rightarrow> Inr job_id)"

text \<open>
  \<^verbatim>\<open>download_result\<close>: the bytes written to the output file.  The Vast.ai script makes the
  directory before the request, the RunPod client after it.
\<close>

definition make_dir :: "demucs_env \<Rightarrow> exn + unit" where
  "make_dir denv = (case mkdir_error denv of None \<Rightarrow> Inr () | Some e \<Rightarrow> Inl (OSError e))"

definition get_result :: "demucs_env \<Rightarrow> string \<Rightarrow> exn + string" where
  "get_result denv job_id =
     (case result_answer denv job_id of
        Raises e \<Rightarrow> Inl (RequestException e)
      | Returns bytes \<Rightarrow> Inr bytes)"

subsection \<open>Waiting for the job, with log streaming (Vast.ai client)\<close>

text \<open>
  What \<^verbatim>\<open>wait_for_job\<close> does that can be seen from outside: a log fetch at a byte offset
  together with the text printed from its answer (empty when the fetch failed or brought
  nothing), the message that streaming failed, a progress line.  The printed percentage is
  \<^verbatim>\<open>completed / total * 100\<close> without decimals; the event keeps the two counts.
\<close>

datatype log_event =
    LogFetch nat string
  | StreamingFailed string
  | ProgressShown int int

text \<open>\<^verbatim>\<open>str(status.get('error'))\<close> inside the f-string.\<close>

definition str_opt :: "string option \<Rightarrow> string" where
  "str_opt x = (case x of None \<Rightarrow> ''None'' | Some s \<Rightarrow> s)"

text \<open>
  The log fetch on a terminal status.  It is not inside a \<^verbatim>\<open>try\<close>: an exception of the
  fetch leaves \<^verbatim>\<open>wait_for_job\<close>.
\<close>

definition final_flush :: "demucs_env \<Rightarrow> nat \<Rightarrow> string \<Rightarrow> nat \<Rightarrow> bool \<Rightarrow> log_event list \<times> exn option" where
  "final_flush denv k job_id log_offset stream_logs =
     (if stream_logs then
        (case job_logs_answer denv k job_id log_offset of
           Raises e \<Rightarrow> ([LogFetch log_offset []], Some (RequestException e))
         | Returns log_data \<Rightarrow>
             (case ld_logs log_data of
                None \<Rightarrow> ([LogFetch log_offset []], None)
              | Some logs \<Rightarrow> ([LogFetch log_offset logs], None)))
      else ([], None))"

text \<open>
  The guarded log fetch of a poll that found the job still going: events, the new offset
  and the new value of \<^verbatim>\<open>stream_logs\<close>.  The offset moves only when new text came, and
  then to what the answer says (it stays when the answer has no offset).
\<close>

definition stream_step :: "demucs_env \<Rightarrow> nat \<Rightarrow> string \<Rightarrow> nat \<Rightarrow> log_event list \<times> nat \<times> bool" where
  "stream_step denv k job_id log_offset =
     (case job_logs_answer denv k job_id log_offset of
        Raises e \<Rightarrow> ([LogFetch log_offset [], StreamingFailed e], log_offset, False)
      | Returns log_data \<Rightarrow>
          (case ld_logs log_data of
             None \<Rightarrow> ([LogFetch log_offset []], log_offset, True)
           | Some new_logs \<Rightarrow>
               if new_logs = [] then ([LogFetch log_offset []], log_offset, True)
               else ([LogFetch log_offset new_logs],
                     (case ld_offset log_data of None \<Rightarrow> log_offset | Some new_offset \<Rightarrow> new_offset),
                     True)))"

definition show_progress :: "job_status_json \<Rightarrow> log_event list" where
  "show_progress status =
     (let completed = (case js_details status of
                         None \<Rightarrow> 0
                       | Some d \<Rightarrow> (case completed_segments d of None \<Rightarrow> 0 | Some c \<Rightarrow> c));
          total = (case js_details status of
                     None \<Rightarrow> 0
                   | Some d \<Rightarrow> (case total_segments d of None \<Rightarrow> 0 | Some t \<Rightarrow> t))
      in if total > 0 then [ProgressShown completed total] else [])"

text \<open>
  \<^verbatim>\<open>wait_for_job\<close> of the Vast.ai client.  The state of the loop is the number of the
  poll, the elapsed time, \<^verbatim>\<open>log_offset\<close> and \<^verbatim>\<open>stream_logs\<close>.
\<close>

function wait_for_job_loop :: "demucs_env \<Rightarrow> string \<Rightarrow> nat \<Rightarrow> nat \<Rightarrow> nat \<Rightarrow> nat \<Rightarrow> bool
    \<Rightarrow> log_event list \<times> (exn + job_status_json)" where
  "wait_for_job_loop denv job_id timeout k elapsed log_offset stream_logs =
     (if elapsed < timeout then
        (case job_status_answer denv k job_id of
           Raises e \<Rightarrow> ([], Inl (RequestException e))
         | Returns status \<Rightarrow>
             if js_status status = ''completed'' then
               (case final_flush denv k job_id log_offset stream_logs of
                  (events, Some e) \<Rightarrow> (events, Inl e)
                | (events, None) \<Rightarrow> (events, Inr status))
             else if js_status status = ''failed'' then
               (case final_flush denv k job_id log_offset stream_logs of
                  (events, Some e) \<Rightarrow> (events, Inl e)
                | (events, None) \<Rightarrow>
                    (events, Inl (Exception (''Job failed: '' @ str_opt (js_error status)))))
             else
               (case (if stream_logs then stream_step denv k job_id log_offset
                      else ([], log_offset, False)) of
                  (events, log_offset', stream_logs') \<Rightarrow>
                    (case wait_for_job_loop denv job_id timeout (Suc k)
                            (elapsed + job_poll_seconds denv k + 5) log_offset' stream_logs' of
                       (later, r) \<Rightarrow>
                         (events @ (if \<not> stream_logs' then show_progress status else []) @ later,
                          r))))
      else ([], Inl (Exception (''Job timeout after '' @ str_nat timeout @ ''s''))))"
  by pat_completeness auto
termination
  by (relation "measure (\<lambda>(denv, job_id, timeout, k, elapsed, log_offset, stream_logs). timeout - elapsed)")
     auto

declare wait_for_job_loop.simps [simp del]

definition wait_for_job :: "demucs_env \<Rightarrow> string \<Rightarrow> nat \<Rightarrow> bool
    \<Rightarrow> log_event list \<times> (exn + job_status_json)" where
  "wait_for_job denv job_id timeout stream_logs =
     wait_for_job_loop denv job_id timeout 0 0 0 stream_logs"

text \<open>The log fetches among the events: the offset asked for and the text printed.\<close>

fun fetches :: "log_event list \<Rightarrow> (nat \<times> string) list" where
  "fetches [] = []"
| "fetches (LogFetch log_offset logs # events) = (log_offset, logs) # fetches events"
| "fetches (StreamingFailed e # events) = fetches events"
| "fetches (ProgressShown completed_count total_count # events) = fetches events"

text \<open>
  A fetch at offset \<open>n\<close> that printed \<open>logs\<close> delivered the bytes from \<open>n\<close> up to
  \<open>n + length logs\<close>.  The ranges of a list of fetches are in order when each ends no
  later than every later one starts: then no byte is delivered twice.
\<close>

definition ranges_in_order :: "(nat \<times> string) list \<Rightarrow> bool" where
  "ranges_in_order fs = sorted_wrt (\<lambda>a b. fst a + length (snd a) \<le> fst b) fs"

subsection \<open>Waiting for the job (RunPod client)\<close>

text \<open>
  \<^verbatim>\<open>wait_for_job\<close> of the RunPod client: no log streaming; the progress lines it prints are
  left out.
\<close>

function runpod_wait_for_job_loop :: "demucs_env \<Rightarrow> string \<Rightarrow> nat \<Rightarrow> nat \<Rightarrow> nat
    \<Rightarrow> exn + job_status_json" where
  "runpod_wait_for_job_loop denv job_id timeout k elapsed =
     (if elapsed < timeout then
        (case job_status_answer denv k job_id of
           Raises e \<Rightarrow> Inl (RequestException e)
         | Returns job \<Rightarrow>
             if js_status job = ''completed'' then Inr job
             else if js_status job = ''failed'' then
               Inl (Exception (''Job failed: '' @ str_opt (js_error job)))
             else runpod_wait_for_job_loop denv job_id timeout (Suc k)
                    (elapsed + job_poll_seconds denv k + 5))
      else Inl (TimeoutError (''Job '' @ job_id @ '' did not complete in '' @ str_nat timeout @ ''s'')))"
  by pat_completeness auto
termination
  by (relation "measure (\<lambda>(denv, job_id, timeout, k, elapsed). timeout - elapsed)") auto

declare runpod_wait_for_job_loop.simps [simp del]

definition runpod_wait_for_job :: "demucs_env \<Rightarrow> string \<Rightarrow> nat \<Rightarrow> exn + job_status_json" where
  "runpod_wait_for_job denv job_id timeout = runpod_wait_for_job_loop denv job_id timeout 0 0"

section \<open>The \<^verbatim>\<open>separate\<close> command of the Vast.ai client\<close>

text \<open>
  The calls that change what is rented: a creation attempt on an offer, the destruction of
  an instance.
\<close>

datatype market_call = CreateCall int | DestroyCall int

record vast_args =
  va_input_url :: string
  va_output :: string
  va_interval_cut :: "string option"
  va_keep_instance :: bool

text \<open>
  The loop over the offers in \<^verbatim>\<open>cmd_separate\<close>: every exception of
  \<^verbatim>\<open>create_instance\<close> is printed and the next offer tried.  The result is the list of
  offers a creation was attempted on, in order, and the instance if one was created.
  \<open>k\<close> numbers the PUT calls.
\<close>

fun vast_provision :: "vast_env \<Rightarrow> nat \<Rightarrow> vast_offer list \<Rightarrow> int list \<times> created option" where
  "vast_provision env k [] = ([], None)"
| "vast_provision env k (offer # rest) =
     (case create_instance (put_answer env k (o_id offer)) (o_id offer) of
        Inr instance \<Rightarrow> ([o_id offer], Some instance)
      | Inl e \<Rightarrow>
          (case vast_provision env (Suc k) rest of
             (attempts, r) \<Rightarrow> (o_id offer # attempts, r)))"

text \<open>The body of the \<^verbatim>\<open>try\<close> block.  The result is the content of the output file.\<close>

definition vast_separate_body :: "vast_env \<Rightarrow> demucs_env \<Rightarrow> vast_args \<Rightarrow> int \<Rightarrow> exn + string" where
  "vast_separate_body env denv args instance_id =
     (case wait_for_instance_ready env instance_id 600 of
        Inl e \<Rightarrow> Inl e
      | Inr None \<Rightarrow> Inl (Exception ''Instance failed to start'')
      | Inr (Some api_url) \<Rightarrow>
          (case post_job denv of
             Inl e \<Rightarrow> Inl e
           | Inr job_id \<Rightarrow>
               (case snd (wait_for_job denv job_id 1800 True) of
                  Inl e \<Rightarrow> Inl e
                | Inr status \<Rightarrow>
                    (case make_dir denv of
                       Inl e \<Rightarrow> Inl e
                     | Inr u \<Rightarrow> get_result denv job_id))))"

text \<open>
  \<^verbatim>\<open>cmd_separate\<close>: the market calls made, in order, and how the command ends.  The
  \<^verbatim>\<open>finally\<close> clause runs after the body whatever the body did; \<^verbatim>\<open>destroy_instance\<close>
  does not raise and its result is not looked at.
\<close>

definition vast_cmd_separate :: "vast_env \<Rightarrow> demucs_env \<Rightarrow> vast_args \<Rightarrow> market_call list \<times> (exn + string)" where
  "vast_cmd_separate env denv args =
     (if VASTAI_API_KEY env = None \<or> VASTAI_API_KEY env = Some [] then ([], Inl (SystemExit 1))
      else
        (let offers = get_ranked_offers (bundles_answer env) 10 in
         if offers = [] then ([], Inl (SystemExit 1))
         else
           (case vast_provision env 0 offers of
              (attempts, None) \<Rightarrow> (map CreateCall attempts, Inl (SystemExit 1))
            | (attempts, Some instance) \<Rightarrow>
                (let instance_id = c_id instance;
                     outcome = vast_separate_body env denv args instance_id
                 in (map CreateCall attempts @
                       (if \<not> va_keep_instance args then [DestroyCall instance_id] else []),
                     outcome)))))"

text \<open>The instances a list of market calls destroys, in order.\<close>

fun destroyed :: "market_call list \<Rightarrow> int list" where
  "destroyed [] = []"
| "destroyed (DestroyCall instance_id # calls) = instance_id # destroyed calls"
| "destroyed (CreateCall offer_id # calls) = destroyed calls"

text \<open>\<^verbatim>\<open>cmd_destroy\<close>: one call of \<^verbatim>\<open>destroy_instance\<close>; the value it returned.\<close>

definition cmd_destroy :: "vast_env \<Rightarrow> nat \<Rightarrow> int \<Rightarrow> exn + bool" where
  "cmd_destroy env k instance_id =
     (if VASTAI_API_KEY env = None \<or> VASTAI_API_KEY env = Some [] then Inl (SystemExit 1)
      else Inr (destroy_instance (delete_answer env k instance_id)))"

section \<open>RunPod client (\<^verbatim>\<open>runpod_client.py\<close>)\<close>

subsection \<open>GPU types and their ranking\<close>

text \<open>
  The body of a GraphQL answer: either it has the key \<^verbatim>\<open>errors\<close> (kept as Python prints
  them) or the client reads the payload under \<^verbatim>\<open>data\<close>.
\<close>

datatype 'a graphql = GraphqlErrors string | GraphqlData 'a

record price_info =
  minimumBidPrice :: "rat option"
  uninterruptablePrice :: "rat option"

record gpu_type =
  gt_id :: string
  gt_displayName :: "string option"
  gt_memoryInGb :: "int option"
  gt_secureCloud :: "bool option"
  gt_communityCloud :: "bool option"
  gt_lowestPrice :: "price_info option"

record gpu =
  g_id :: string
  g_name :: string
  g_vram_gb :: int
  g_price_per_hour :: rat
  g_secure :: bool
  g_community :: bool

definition MIN_VRAM_GB :: int where
  "MIN_VRAM_GB = 8"

definition API_PORT :: int where
  "API_PORT = 8185"

definition PREFERRED_GPUS :: "string list" where
  "PREFERRED_GPUS =
     [''NVIDIA RTX 3090'', ''NVIDIA RTX 4090'', ''NVIDIA RTX A4000'', ''NVIDIA RTX A5000'',
      ''NVIDIA A40'', ''NVIDIA RTX 3080'', ''NVIDIA RTX 4080'']"

text \<open>Python's \<^verbatim>\<open>x or y\<close> on an optional price: a missing or zero price is falsy.\<close>

definition price_or :: "rat option \<Rightarrow> rat \<Rightarrow> rat" where
  "price_or x y = (case x of None \<Rightarrow> y | Some v \<Rightarrow> if v = 0 then y else v)"

definition lowest_price :: "price_info option \<Rightarrow> rat" where
  "lowest_price info =
     (case info of
        None \<Rightarrow> 999
      | Some price_info \<Rightarrow>
          price_or (minimumBidPrice price_info) (price_or (uninterruptablePrice price_info) 999))"

definition gpu_of :: "gpu_type \<Rightarrow> gpu" where
  "gpu_of t =
     \<lparr>g_id = gt_id t,
      g_name = (case gt_displayName t of None \<Rightarrow> gt_id t | Some n \<Rightarrow> n),
      g_vram_gb = (case gt_memoryInGb t of None \<Rightarrow> 0 | Some m \<Rightarrow> m),
      g_price_per_hour = lowest_price (gt_lowestPrice t),
      g_secure = (case gt_secureCloud t of None \<Rightarrow> False | Some b \<Rightarrow> b),
      g_community = (case gt_communityCloud t of None \<Rightarrow> False | Some b \<Rightarrow> b)\<rparr>"

definition enough_vram :: "gpu_type \<Rightarrow> bool" where
  "enough_vram t = ((case gt_memoryInGb t of None \<Rightarrow> 0 | Some m \<Rightarrow> m) \<ge> MIN_VRAM_GB)"

text \<open>\<^verbatim>\<open>get_available_gpus\<close>: exceptions of the request are not caught.\<close>

definition get_available_gpus :: "gpu_type list graphql answer \<Rightarrow> exn + gpu list" where
  "get_available_gpus response =
     (case response of
        Raises e \<Rightarrow> Inl (RequestException e)
      | Returns (GraphqlErrors errors) \<Rightarrow> Inl (Exception (''GraphQL error: '' @ errors))
      | Returns (GraphqlData gpus) \<Rightarrow>
          Inr (sort_key g_price_per_hour (map gpu_of (filter enough_vram gpus))))"

text \<open>\<^verbatim>\<open>preferred.lower() in gpu["name"].lower()\<close>\<close>

definition matches :: "string \<Rightarrow> gpu \<Rightarrow> bool" where
  "matches preferred gpu = contains (lower (g_name gpu)) (lower preferred)"

text \<open>
  The inner loop of \<^verbatim>\<open>get_ranked_gpus\<close>: the first GPU of the list that matches the
  preferred model and whose id is not used yet.
\<close>

fun pick_preferred :: "string \<Rightarrow> gpu list \<Rightarrow> string set \<Rightarrow> gpu option" where
  "pick_preferred preferred [] used_ids = None"
| "pick_preferred preferred (gpu # rest) used_ids =
     (if matches preferred gpu \<and> g_id gpu \<notin> used_ids then Some gpu
      else pick_preferred preferred rest used_ids)"

text \<open>The outer loop, over the preferred models; the state is \<^verbatim>\<open>ranked\<close> and \<^verbatim>\<open>used_ids\<close>.\<close>

fun add_preferred :: "string list \<Rightarrow> gpu list \<Rightarrow> gpu list \<times> string set \<Rightarrow> gpu list \<times> string set" where
  "add_preferred [] cheapest st = st"
| "add_preferred (preferred # rest) cheapest (ranked, used_ids) =
     (case pick_preferred preferred cheapest used_ids of
        None \<Rightarrow> add_preferred rest cheapest (ranked, used_ids)
      | Some gpu \<Rightarrow> add_preferred rest cheapest (ranked @ [gpu], insert (g_id gpu) used_ids))"

text \<open>The second loop: the GPUs left, in the order of the list.\<close>

fun add_remaining :: "gpu list \<Rightarrow> gpu list \<times> string set \<Rightarrow> gpu list \<times> string set" where
  "add_remaining [] st = st"
| "add_remaining (gpu # rest) (ranked, used_ids) =
     (if g_id gpu \<notin> used_ids
      then add_remaining rest (ranked @ [gpu], insert (g_id gpu) used_ids)
      else add_remaining rest (ranked, used_ids))"

definition rank_gpus :: "gpu list \<Rightarrow> nat \<Rightarrow> gpu list" where
  "rank_gpus gpus max_results =
     (if gpus = [] then []
      else take max_results
             (fst (add_remaining gpus (add_preferred PREFERRED_GPUS (take 10 gpus) ([], {})))))"

definition get_ranked_gpus :: "gpu_type list graphql answer \<Rightarrow> nat \<Rightarrow> exn + gpu list" where
  "get_ranked_gpus response max_results =
     (case get_available_gpus response of
        Inl e \<Rightarrow> Inl e
      | Inr gpus \<Rightarrow> Inr (rank_gpus gpus max_results))"

subsection \<open>The ranking in the specification's words\<close>

text \<open>
  The specification's step (3): for each preferred model, in the order of the list, the
  first offer among the cheapest that matches it and is not claimed yet; and steps (4) and
  (5): the picked offers, then the unclaimed ones in price order, cut to \<open>max_results\<close>.
  The argument of \<open>spec_rank\<close> is the list after steps (1) and (2), filtered and sorted.
\<close>

fun spec_preferred :: "string list \<Rightarrow> gpu list \<Rightarrow> string set \<Rightarrow> gpu list" where
  "spec_preferred [] cheapest claimed = []"
| "spec_preferred (model # models) cheapest claimed =
     (case find (\<lambda>gpu. matches model gpu \<and> g_id gpu \<notin> claimed) cheapest of
        None \<Rightarrow> spec_preferred models cheapest claimed
      | Some gpu \<Rightarrow> gpu # spec_preferred models cheapest (insert (g_id gpu) claimed))"

definition spec_rank :: "gpu list \<Rightarrow> nat \<Rightarrow> gpu list" where
  "spec_rank sorted_offers max_results =
     (let picked = spec_preferred PREFERRED_GPUS (take 10 sorted_offers) {} in
      take max_results
        (picked @ filter (\<lambda>gpu. g_id gpu \<notin> g_id ` set picked) sorted_offers))"

subsection \<open>Pods\<close>

text \<open>
  A pod as the client reads it.  \<^verbatim>\<open>runtime\<close>, its \<^verbatim>\<open>ports\<close> and an entry of the
  ports are \<open>None\<close> when the answer has JSON \<^verbatim>\<open>null\<close> there; a missing key reads as
  the empty default.  \<^verbatim>\<open>desiredStatus\<close> is asked for in the query and never read.  The
  answer to a creation has a pod, the empty object, or \<^verbatim>\<open>null\<close> (\<open>NullPod\<close>, also for
  \<^verbatim>\<open>"data": null\<close>: \<^verbatim>\<open>.get\<close> fails on either).
\<close>

record pod =
  pd_id :: string
  pd_name :: string

datatype pod_payload = NullPod | EmptyPod | PodObject pod

record port =
  p_ip :: "string option"
  p_privatePort :: "int option"
  p_publicPort :: "int option"

record pod_view =
  pv_desiredStatus :: "string option"
  pv_runtime :: "port option list option option"

record runpod_env =
  RUNPOD_API_KEY :: "string option"
  gpu_types_answer :: "gpu_type list graphql answer"
  deploy_answer :: "nat \<Rightarrow> string \<Rightarrow> pod_payload graphql answer"
  pod_answer :: "nat \<Rightarrow> string \<Rightarrow> pod_view option graphql answer"
  pod_health_answer :: "nat \<Rightarrow> string \<Rightarrow> nat answer"
  terminate_answer :: "string \<Rightarrow> unit graphql answer"
  pod_poll_seconds :: "nat \<Rightarrow> nat"

text \<open>
  \<^verbatim>\<open>create_pod\<close>.  The payload under \<^verbatim>\<open>data\<close> is a pod, the empty object (also what
  a missing key reads as) or \<^verbatim>\<open>null\<close>.  \<^verbatim>\<open>self.active_pod_id = pod.get("id")\<close> comes
  before the \<^verbatim>\<open>return\<close>: on \<^verbatim>\<open>null\<close> it raises.  The empty object is returned, and is
  falsy for the caller: \<open>None\<close>.
\<close>

definition create_pod :: "pod_payload graphql answer \<Rightarrow> exn + pod option" where
  "create_pod response =
     (case response of
        Raises e \<Rightarrow> Inl (RequestException e)
      | Returns (GraphqlErrors errors) \<Rightarrow> Inl (Exception (''Failed to create pod: '' @ errors))
      | Returns (GraphqlData NullPod) \<Rightarrow> Inl (AttributeError NoneType_has_no_get)
      | Returns (GraphqlData EmptyPod) \<Rightarrow> Inr None
      | Returns (GraphqlData (PodObject pod)) \<Rightarrow> Inr (Some pod))"

text \<open>
  \<^verbatim>\<open>try_create_pod\<close>: an exception whose text, in lower case, has \<^verbatim>\<open>resources\<close> or
  \<^verbatim>\<open>not have\<close> in it means that the GPU is unavailable; any other is raised again.
\<close>

definition unavailable :: "exn \<Rightarrow> bool" where
  "unavailable e =
     (let error_msg = lower (message e)
      in contains error_msg ''resources'' \<or> contains error_msg ''not have'')"

definition try_create_pod :: "pod_payload graphql answer \<Rightarrow> exn + pod option" where
  "try_create_pod response =
     (case create_pod response of
        Inr pod \<Rightarrow> Inr pod
      | Inl e \<Rightarrow> if unavailable e then Inr None else Inl e)"

text \<open>
  The loop over the ranked GPUs in \<^verbatim>\<open>cmd_separate\<close>: the ids a creation was attempted
  on, and the pod with its GPU, or nothing, or the exception that ended the loop.
\<close>

fun runpod_provision :: "runpod_env \<Rightarrow> nat \<Rightarrow> gpu list \<Rightarrow> string list \<times> (exn + (pod \<times> gpu) option)" where
  "runpod_provision env k [] = ([], Inr None)"
| "runpod_provision env k (gpu # rest) =
     (case try_create_pod (deploy_answer env k (g_id gpu)) of
        Inl e \<Rightarrow> ([g_id gpu], Inl e)
      | Inr (Some pod) \<Rightarrow> ([g_id gpu], Inr (Some (pod, gpu)))
      | Inr None \<Rightarrow>
          (case runpod_provision env (Suc k) rest of
             (attempts, r) \<Rightarrow> (g_id gpu # attempts, r)))"

definition get_pod :: "pod_view option graphql answer \<Rightarrow> exn + pod_view option" where
  "get_pod response =
     (case response of
        Raises e \<Rightarrow> Inl (RequestException e)
      | Returns (GraphqlErrors errors) \<Rightarrow> Inl (Exception (''Failed to get pod: '' @ errors))
      | Returns (GraphqlData pod) \<Rightarrow> Inr pod)"

text \<open>\<^verbatim>\<open>stop_pod\<close> raises where \<^verbatim>\<open>destroy_instance\<close> returns \<^verbatim>\<open>False\<close>.\<close>

definition stop_pod :: "unit graphql answer \<Rightarrow> exn + bool" where
  "stop_pod response =
     (case response of
        Raises e \<Rightarrow> Inl (RequestException e)
      | Returns (GraphqlErrors errors) \<Rightarrow> Inl (Exception (''Failed to stop pod: '' @ errors))
      | Returns (GraphqlData u) \<Rightarrow> Inr True)"

subsection \<open>Waiting for the pod\<close>

text \<open>
  The loop over the ports of one poll: the first port with private port 8185, an address
  and a public port whose health probe answers 200.  A probe that raises a
  \<^verbatim>\<open>RequestException\<close> or answers anything else is passed over.
\<close>

fun first_healthy :: "runpod_env \<Rightarrow> nat \<Rightarrow> port option list \<Rightarrow> exn + string option" where
  "first_healthy env k [] = Inr None"
| "first_healthy env k (None # rest) = Inl (AttributeError NoneType_has_no_get)"
| "first_healthy env k (Some port # rest) =
     (if p_privatePort port = Some API_PORT then
        (case (p_ip port, p_publicPort port) of
           (Some ip, Some public_port) \<Rightarrow>
             if ip \<noteq> [] \<and> public_port \<noteq> 0 then
               (case pod_health_answer env k (''http://'' @ ip @ '':'' @ str_int public_port) of
                  Returns code \<Rightarrow>
                    if code = 200 then Inr (Some (''http://'' @ ip @ '':'' @ str_int public_port))
                    else first_healthy env k rest
                | Raises e \<Rightarrow> first_healthy env k rest)
             else first_healthy env k rest
         | other \<Rightarrow> first_healthy env k rest)
      else first_healthy env k rest)"

text \<open>
  One pass of the loop of \<^verbatim>\<open>wait_for_pod_ready\<close>.  An exception of \<^verbatim>\<open>get_pod\<close> is not
  caught; a null pod, a null \<^verbatim>\<open>runtime\<close> or a null entry of \<^verbatim>\<open>ports\<close> makes
  \<^verbatim>\<open>.get\<close> fail, null \<^verbatim>\<open>ports\<close> the \<^verbatim>\<open>for\<close>.
\<close>

definition pod_ready_now :: "runpod_env \<Rightarrow> nat \<Rightarrow> string \<Rightarrow> exn + string option" where
  "pod_ready_now env k pod_id =
     (case get_pod (pod_answer env k pod_id) of
        Inl e \<Rightarrow> Inl e
      | Inr None \<Rightarrow> Inl (AttributeError NoneType_has_no_get)
      | Inr (Some pod) \<Rightarrow>
          (case pv_runtime pod of
             None \<Rightarrow> Inl (AttributeError NoneType_has_no_get)
           | Some None \<Rightarrow> Inl (TypeError NoneType_not_iterable)
           | Some (Some ports) \<Rightarrow> first_healthy env k ports))"

function wait_for_pod_ready_loop :: "runpod_env \<Rightarrow> string \<Rightarrow> nat \<Rightarrow> nat \<Rightarrow> nat \<Rightarrow> exn + string" where
  "wait_for_pod_ready_loop env pod_id timeout k elapsed =
     (if elapsed < timeout then
        (case pod_ready_now env k pod_id of
           Inl e \<Rightarrow> Inl e
         | Inr (Some url) \<Rightarrow> Inr url
         | Inr None \<Rightarrow>
             wait_for_pod_ready_loop env pod_id timeout (Suc k) (elapsed + pod_poll_seconds env k + 5))
      else Inl (TimeoutError (''Pod '' @ pod_id @ '' did not become ready in '' @ str_nat timeout @ ''s'')))"
  by pat_completeness auto
termination
  by (relation "measure (\<lambda>(env, pod_id, timeout, k, elapsed). timeout - elapsed)") auto

declare wait_for_pod_ready_loop.simps [simp del]

definition wait_for_pod_ready :: "runpod_env \<Rightarrow> string \<Rightarrow> nat \<Rightarrow> exn + string" where
  "wait_for_pod_ready env pod_id timeout = wait_for_pod_ready_loop env pod_id timeout 0 0"

subsection \<open>The \<^verbatim>\<open>separate\<close> command of the RunPod client\<close>

datatype pod_call = DeployCall string | TerminateCall string

record runpod_args =
  ra_input :: string
  ra_output :: string
  ra_interval_cut :: "string option"
  ra_all_stems :: bool
  ra_keep_pod :: bool

text \<open>
  The wait for the models: \<^verbatim>\<open>for _ in range(60)\<close>, each pass a \<^verbatim>\<open>GET /status\<close>, left
  as soon as \<^verbatim>\<open>models_ready\<close> holds.  When the sixty passes are used up the command goes
  on all the same.
\<close>

fun models_wait :: "demucs_env \<Rightarrow> nat \<Rightarrow> nat \<Rightarrow> exn + unit" where
  "models_wait denv k 0 = Inr ()"
| "models_wait denv k (Suc n) =
     (case server_status_answer denv k of
        Raises e \<Rightarrow> Inl (RequestException e)
      | Returns models_ready \<Rightarrow> if models_ready then Inr () else models_wait denv (Suc k) n)"

definition check_models :: "demucs_env \<Rightarrow> exn + unit" where
  "check_models denv =
     (case server_status_answer denv 0 of
        Raises e \<Rightarrow> Inl (RequestException e)
      | Returns models_ready \<Rightarrow> if models_ready then Inr () else models_wait denv 1 60)"

definition runpod_separate_body :: "runpod_env \<Rightarrow> demucs_env \<Rightarrow> runpod_args \<Rightarrow> string \<Rightarrow> exn + string" where
  "runpod_separate_body env denv args pod_id =
     (case wait_for_pod_ready env pod_id 300 of
        Inl e \<Rightarrow> Inl e
      | Inr url \<Rightarrow>
          (case check_models denv of
             Inl e \<Rightarrow> Inl e
           | Inr u \<Rightarrow>
               (case post_job denv of
                  Inl e \<Rightarrow> Inl e
                | Inr job_id \<Rightarrow>
                    (case runpod_wait_for_job denv job_id 1800 of
                       Inl e \<Rightarrow> Inl e
                     | Inr job \<Rightarrow>
                         (case get_result denv job_id of
                            Inl e \<Rightarrow> Inl e
                          | Inr bytes \<Rightarrow>
                              (case make_dir denv of
                                 Inl e \<Rightarrow> Inl e
                               | Inr u' \<Rightarrow> Inr bytes))))))"

text \<open>
  \<^verbatim>\<open>cmd_separate\<close>.  An exception of \<^verbatim>\<open>stop_pod\<close> inside \<^verbatim>\<open>finally\<close> takes the place
  of what the body ended with.
\<close>

definition runpod_cmd_separate :: "runpod_env \<Rightarrow> demucs_env \<Rightarrow> runpod_args \<Rightarrow> pod_call list \<times> (exn + string)" where
  "runpod_cmd_separate env denv args =
     (if RUNPOD_API_KEY env = None \<or> RUNPOD_API_KEY env = Some [] then ([], Inl (SystemExit 1))
      else
        (case get_ranked_gpus (gpu_types_answer env) 10 of
           Inl e \<Rightarrow> ([], Inl e)
         | Inr gpus \<Rightarrow>
             if gpus = [] then ([], Inl (SystemExit 1))
             else
               (case runpod_provision env 0 gpus of
                  (attempts, Inl e) \<Rightarrow> (map DeployCall attempts, Inl e)
                | (attempts, Inr None) \<Rightarrow> (map DeployCall attempts, Inl (SystemExit 1))
                | (attempts, Inr (Some (pod, selected_gpu))) \<Rightarrow>
                    (let outcome = runpod_separate_body env denv args (pd_id pod) in
                     if \<not> ra_keep_pod args then
                       (map DeployCall attempts @ [TerminateCall (pd_id pod)],
                        (case stop_pod (terminate_answer env (pd_id pod)) of
                           Inl e \<Rightarrow> Inl e
                         | Inr stopped \<Rightarrow> outcome))
                     else (map DeployCall attempts, outcome)))))"

text \<open>The pods a list of calls terminates, in order.\<close>

fun terminated :: "pod_call list \<Rightarrow> string list" where
  "terminated [] = []"
| "terminated (TerminateCall pod_id # calls) = pod_id # terminated calls"
| "terminated (DeployCall gpu_id # calls) = terminated calls"

section \<open>Batch launcher (\<^verbatim>\<open>test_concurrent_instances.py\<close>)\<close>

record instance_info =
  info_index :: nat
  info_id :: int
  info_offer_id :: int
  info_gpu :: string
  info_price :: rat
  info_created_at :: string

record tester =
  num_instances :: nat
  instances :: "instance_info list"
  success_count :: nat
  fail_count :: nat
  offer_index :: nat
  available_offers :: "vast_offer list"

text \<open>\<^verbatim>\<open>InstanceTester.__init__\<close>: the offers are fetched once, here.\<close>

definition InstanceTester :: "vast_env \<Rightarrow> nat \<Rightarrow> exn + tester" where
  "InstanceTester env n =
     (if VASTAI_API_KEY env = None \<or> VASTAI_API_KEY env = Some [] then
        Inl (Exception ''VASTAI_API_KEY not set'')
      else
        (let offers = get_ranked_offers (bundles_answer env) 20 in
         if offers = [] then Inl (Exception ''No GPU offers available'')
         else Inr \<lparr>num_instances = n, instances = [], success_count = 0, fail_count = 0,
                   offer_index = 0, available_offers = offers\<rparr>))"

text \<open>
  \<^verbatim>\<open>get_next_offer\<close>.  On an empty list the modulus raises before the index moves.
\<close>

definition get_next_offer :: "tester \<Rightarrow> exn + (vast_offer \<times> tester)" where
  "get_next_offer t =
     (if length (available_offers t) = 0 then
        Inl (ZeroDivisionError ''integer modulo by zero'')
      else
        Inr (available_offers t ! (offer_index t mod length (available_offers t)),
             t\<lparr>offer_index := offer_index t + 1\<rparr>))"

text \<open>
  \<^verbatim>\<open>launch_instance\<close>.  Every exception of the body is caught and counted as a failure;
  the index moved by \<^verbatim>\<open>get_next_offer\<close> stays moved.
\<close>

definition launch_instance :: "vast_env \<Rightarrow> tester \<Rightarrow> nat \<Rightarrow> instance_info option \<times> tester" where
  "launch_instance env t instance_index =
     (case get_next_offer t of
        Inl e \<Rightarrow> (None, t\<lparr>fail_count := fail_count t + 1\<rparr>)
      | Inr (offer, t1) \<Rightarrow>
          (case create_instance (put_answer env instance_index (o_id offer)) (o_id offer) of
             Inl e \<Rightarrow> (None, t1\<lparr>fail_count := fail_count t1 + 1\<rparr>)
           | Inr inst \<Rightarrow>
               if \<not> c_success inst then (None, t1\<lparr>fail_count := fail_count t1 + 1\<rparr>)
               else
                 (let instance_info =
                    \<lparr>info_index = instance_index, info_id = c_id inst,
                     info_offer_id = o_id offer, info_gpu = o_gpu_name offer,
                     info_price = o_price_per_hour offer,
                     info_created_at = datetime_now env instance_index\<rparr>
                  in (Some instance_info,
                      t1\<lparr>success_count := success_count t1 + 1,
                         instances := instances t1 @ [instance_info]\<rparr>))))"

text \<open>The loop of \<^verbatim>\<open>run\<close>: \<^verbatim>\<open>for i in range(self.num_instances): self.launch_instance(i)\<close>.\<close>

fun launch_loop :: "vast_env \<Rightarrow> tester \<Rightarrow> nat list \<Rightarrow> tester" where
  "launch_loop env t [] = t"
| "launch_loop env t (i # is) = launch_loop env (snd (launch_instance env t i)) is"

text \<open>
  The persisted list \<^verbatim>\<open>active_instances.json\<close>: missing, unreadable as JSON, or a
  list of records as \<^verbatim>\<open>save_instances\<close> writes them.
\<close>

datatype file_state = Absent | Corrupt | Stored "instance_info list"

text \<open>
  \<^verbatim>\<open>run\<close>: the launches, the percentage of the summary (a division by the number of
  instances asked for), and the save when at least one launch succeeded.
\<close>

definition run :: "vast_env \<Rightarrow> tester \<Rightarrow> file_state \<Rightarrow> exn + (tester \<times> file_state)" where
  "run env t file =
     (let t' = launch_loop env t [0 ..< num_instances t] in
      if num_instances t' = 0 then Inl (ZeroDivisionError ''division by zero'')
      else if success_count t' = 0 then Inr (t', file)
      else Inr (t', Stored (instances t')))"

text \<open>
  The loop of \<^verbatim>\<open>destroy_all_instances\<close>, with the number of the call.  The records
  carry the keys \<^verbatim>\<open>id\<close> and \<^verbatim>\<open>index\<close> and \<^verbatim>\<open>destroy_instance\<close> never raises, so the
  \<^verbatim>\<open>except\<close> branch of the body is not taken: each pass adds one to \<^verbatim>\<open>success\<close>,
  whatever \<^verbatim>\<open>destroy_instance\<close> returned.  The state is the list of calls made (id and
  the value returned), \<^verbatim>\<open>success\<close> and \<^verbatim>\<open>failed\<close>.
\<close>

fun destroy_loop :: "vast_env \<Rightarrow> nat \<Rightarrow> instance_info list \<Rightarrow> (int \<times> bool) list \<times> nat \<times> nat
    \<Rightarrow> (int \<times> bool) list \<times> nat \<times> nat" where
  "destroy_loop env k [] st = st"
| "destroy_loop env k (inst # rest) (calls, success, failed) =
     destroy_loop env (Suc k) rest
       (calls @ [(info_id inst, destroy_instance (delete_answer env k (info_id inst)))],
        success + 1, failed)"

record destroy_report =
  file_after :: file_state
  destroy_calls :: "(int \<times> bool) list"
  destroyed_count :: nat
  failed_count :: nat

text \<open>\<^verbatim>\<open>destroy_all_instances\<close>.  The file is removed after the loop, unconditionally.\<close>

definition destroy_all_instances :: "vast_env \<Rightarrow> file_state \<Rightarrow> exn + destroy_report" where
  "destroy_all_instances env file =
     (case file of
        Absent \<Rightarrow> Inr \<lparr>file_after = Absent, destroy_calls = [], destroyed_count = 0, failed_count = 0\<rparr>
      | Corrupt \<Rightarrow> Inl (JSONDecodeError ''Expecting value'')
      | Stored insts \<Rightarrow>
          if insts = [] then
            Inr \<lparr>file_after = file, destroy_calls = [], destroyed_count = 0, failed_count = 0\<rparr>
          else if VASTAI_API_KEY env = None \<or> VASTAI_API_KEY env = Some [] then
            Inr \<lparr>file_after = file, destroy_calls = [], destroyed_count = 0, failed_count = 0\<rparr>
          else
            (case destroy_loop env 0 insts ([], 0, 0) of
               (calls, success, failed) \<Rightarrow>
                 Inr \<lparr>file_after = Absent, destroy_calls = calls,
                      destroyed_count = success, failed_count = failed\<rparr>))"

section \<open>Service API on the instance (\<^verbatim>\<open>server.py\<close>)\<close>

subsection \<open>Data\<close>

text \<open>An entry of the global job table \<^verbatim>\<open>JOBS\<close>.\<close>

record job =
  job_status :: string
  job_input_url :: string
  job_interval_cut :: "string option"
  job_all_stems :: bool
  job_created_at :: string
  job_started_at :: "string option"
  job_completed_at :: "string option"
  job_error :: "string option"

text \<open>The pydantic models \<^verbatim>\<open>JobRequest\<close> and \<^verbatim>\<open>JobResponse\<close>.\<close>

record JobRequest =
  req_input_url :: string
  req_interval_cut :: "string option"
  req_all_stems :: bool
  req_job_id :: "string option"

record JobResponse =
  resp_job_id :: string
  resp_status :: string
  resp_message :: string

datatype HTTPException = HTTPException (status_code: nat) (detail: string)

text \<open>
  The process state of the server: the job table and the queue of background tasks
  (\<^verbatim>\<open>run_demucs_job\<close> with its four arguments).
\<close>

record server =
  JOBS :: "string \<rightharpoonup> job"
  background_tasks :: "(string \<times> string \<times> string option \<times> bool) list"

text \<open>
  What a request handler reads from outside: whether \<^verbatim>\<open>MODELS_READY_FILE\<close> exists,
  the text of a fresh \<^verbatim>\<open>uuid.uuid4()\<close>, and \<^verbatim>\<open>datetime.now().isoformat()\<close>.
\<close>

record server_env =
  models_ready_file_exists :: bool
  uuid4 :: string
  isoformat_now :: string

subsection \<open>Handlers\<close>

definition check_models_ready :: "server_env \<Rightarrow> bool" where
  "check_models_ready env = models_ready_file_exists env"

text \<open>
  \<^verbatim>\<open>GET /health\<close>: the handler returns its dictionary without looking at anything, so
  FastAPI answers 200.
\<close>

definition health_check :: "server_env \<Rightarrow> nat \<times> (string \<times> string) list" where
  "health_check env = (200, [(''status'', ''healthy''), (''timestamp'', isoformat_now env)])"

text \<open>
  \<^verbatim>\<open>job_id = request.job_id or str(uuid.uuid4())[:8]\<close>: a missing or empty id is falsy.
\<close>

definition requested_job_id :: "server_env \<Rightarrow> JobRequest \<Rightarrow> string" where
  "requested_job_id env request =
     (case req_job_id request of
        None \<Rightarrow> take 8 (uuid4 env)
      | Some j \<Rightarrow> if j = [] then take 8 (uuid4 env) else j)"

definition new_job :: "server_env \<Rightarrow> JobRequest \<Rightarrow> job" where
  "new_job env request =
     \<lparr>job_status = ''pending'',
      job_input_url = req_input_url request,
      job_interval_cut = req_interval_cut request,
      job_all_stems = req_all_stems request,
      job_created_at = isoformat_now env,
      job_started_at = None,
      job_completed_at = None,
      job_error = None\<rparr>"

text \<open>\<^verbatim>\<open>POST /job\<close>.  The duplicate check comes first, the models check second.\<close>

definition create_job :: "server_env \<Rightarrow> JobRequest \<Rightarrow> server \<Rightarrow> (HTTPException + JobResponse) \<times> server" where
  "create_job env request s =
     (let job_id = requested_job_id env request in
      if JOBS s job_id \<noteq> None then
        (Inl (HTTPException 409 (''Job '' @ job_id @ '' already exists'')), s)
      else if \<not> check_models_ready env then
        (Inl (HTTPException 503 ''Models not ready yet. Please wait.''), s)
      else
        (Inr \<lparr>resp_job_id = job_id, resp_status = ''pending'',
              resp_message = ''Job '' @ job_id @ '' created. Use GET /job/'' @ job_id @ '' to check progress.''\<rparr>,
         s\<lparr>JOBS := (JOBS s)(job_id \<mapsto> new_job env request),
           background_tasks := background_tasks s @
             [(job_id, req_input_url request, req_interval_cut request, req_all_stems request)]\<rparr>))"

section \<open>Example inputs\<close>

text \<open>
  Concrete answers of the outside, used to run the definitions: three offers (the second one
  below the reliability bound), an instance that is up, and a marketplace that refuses offer 3
  and answers every DELETE with 404.
\<close>

definition example_offers :: "raw_offer list" where
  "example_offers =
     [\<lparr>raw_id = 1, raw_gpu_name = Some ''RTX 3090'', raw_gpu_ram = Some 16384,
       raw_dph_total = Some (1 / 5), raw_reliability2 = Some (19 / 20)\<rparr>,
      \<lparr>raw_id = 2, raw_gpu_name = Some ''RTX 3080'', raw_gpu_ram = Some 10240,
       raw_dph_total = Some (3 / 20), raw_reliability2 = Some (4 / 5)\<rparr>,
      \<lparr>raw_id = 3, raw_gpu_name = Some ''GTX 1650'', raw_gpu_ram = Some 4096,
       raw_dph_total = Some (9 / 50), raw_reliability2 = Some (23 / 25)\<rparr>]"

definition example_instance :: raw_instance where
  "example_instance =
     \<lparr>ri_actual_status = Some ''running'', ri_public_ipaddr = Some ''203.0.113.5'',
      ri_ports = PortsMap [''8185/tcp'' \<mapsto> [HostPort (Some ''40123'')]]\<rparr>"

definition example_vast_env :: vast_env where
  "example_vast_env =
     \<lparr>VASTAI_API_KEY = Some ''secret'',
      bundles_answer = Returns (Some example_offers),
      put_answer = (\<lambda>k offer_id.
         if offer_id = 3 then Raises ''401 Client Error: Unauthorized''
         else Returns \<lparr>put_success = True, put_new_contract = 7000 + int k, put_repr = []\<rparr>),
      delete_answer = (\<lambda>k instance_id. Raises ''404 Client Error: Not Found''),
      datetime_now = (\<lambda>k. ''2024-01-01T00:00:00''),
      instance_answer = (\<lambda>k instance_id. Returns (Some (InstanceObject example_instance))),
      health_answer = (\<lambda>k url. Returns 200),
      poll_seconds = (\<lambda>k. 0)\<rparr>"


text \<open>The same marketplace, answering \<^verbatim>\<open>"ports": null\<close> for the running instance.\<close>

definition example_null_ports_env :: vast_env where
  "example_null_ports_env =
     example_vast_env\<lparr>instance_answer :=
       (\<lambda>k instance_id. Returns (Some (InstanceObject (example_instance\<lparr>ri_ports := PortsNull\<rparr>))))\<rparr>"

definition example_gpu_types :: "gpu_type list" where
  "example_gpu_types =
     [\<lparr>gt_id = ''NVIDIA GeForce GTX 1050'', gt_displayName = Some ''GTX 1050'', gt_memoryInGb = Some 4,
       gt_secureCloud = Some False, gt_communityCloud = Some True,
       gt_lowestPrice = Some \<lparr>minimumBidPrice = Some (1 / 20), uninterruptablePrice = None\<rparr>\<rparr>,
      \<lparr>gt_id = ''NVIDIA GeForce RTX 4090'', gt_displayName = Some ''NVIDIA RTX 4090'', gt_memoryInGb = Some 24,
       gt_secureCloud = Some True, gt_communityCloud = Some True,
       gt_lowestPrice = Some \<lparr>minimumBidPrice = Some (3 / 10), uninterruptablePrice = Some (2 / 5)\<rparr>\<rparr>,
      \<lparr>gt_id = ''NVIDIA Tesla T4'', gt_displayName = Some ''Tesla T4'', gt_memoryInGb = Some 16,
       gt_secureCloud = Some True, gt_communityCloud = Some False,
       gt_lowestPrice = Some \<lparr>minimumBidPrice = None, uninterruptablePrice = Some (1 / 10)\<rparr>\<rparr>,
      \<lparr>gt_id = ''NVIDIA GeForce RTX 3090'', gt_displayName = Some ''NVIDIA RTX 3090'', gt_memoryInGb = Some 24,
       gt_secureCloud = Some True, gt_communityCloud = Some True,
       gt_lowestPrice = Some \<lparr>minimumBidPrice = Some (1 / 5), uninterruptablePrice = Some (1 / 4)\<rparr>\<rparr>]"

definition example_runpod_env :: runpod_env where
  "example_runpod_env =
     \<lparr>RUNPOD_API_KEY = Some ''secret'',
      gpu_types_answer = Returns (GraphqlData example_gpu_types),
      deploy_answer = (\<lambda>k gpu_id.
         if gpu_id = ''NVIDIA GeForce RTX 3090''
         then Returns (GraphqlErrors ''This machine does not have the resources to deploy your pod.'')
         else Returns (GraphqlData (PodObject \<lparr>pd_id = ''pod-1'', pd_name = ''demucs-worker''\<rparr>))),
      pod_answer = (\<lambda>k pod_id. Returns (GraphqlData (Some
         \<lparr>pv_desiredStatus = Some ''RUNNING'',
          pv_runtime = Some (Some [Some \<lparr>p_ip = Some ''198.51.100.7'', p_privatePort = Some 8185,
                                         p_publicPort = Some 30185\<rparr>])\<rparr>))),
      pod_health_answer = (\<lambda>k url. Returns 200),
      terminate_answer = (\<lambda>pod_id. Returns (GraphqlData ())),
      pod_poll_seconds = (\<lambda>k. 0)\<rparr>"

text \<open>The same cloud, answering \<^verbatim>\<open>"podFindAndDeployOnDemand": null\<close> where it has a GPU.\<close>

definition example_null_pod_env :: runpod_env where
  "example_null_pod_env =
     example_runpod_env\<lparr>deploy_answer := (\<lambda>k gpu_id.
        if gpu_id = ''NVIDIA GeForce RTX 3090''
        then Returns (GraphqlErrors ''This machine does not have the resources to deploy your pod.'')
        else Returns (GraphqlData NullPod))\<rparr>"

definition gpu_3090 :: gpu where
  "gpu_3090 = \<lparr>g_id = ''NVIDIA GeForce RTX 3090'', g_name = ''NVIDIA RTX 3090'', g_vram_gb = 24,
                g_price_per_hour = 1 / 5, g_secure = True, g_community = True\<rparr>"

definition gpu_4090 :: gpu where
  "gpu_4090 = \<lparr>g_id = ''NVIDIA GeForce RTX 4090'', g_name = ''NVIDIA RTX 4090'', g_vram_gb = 24,
                g_price_per_hour = 3 / 10, g_secure = True, g_community = True\<rparr>"

definition gpu_t4 :: gpu where
  "gpu_t4 = \<lparr>g_id = ''NVIDIA Tesla T4'', g_name = ''Tesla T4'', g_vram_gb = 16,
              g_price_per_hour = 1 / 10, g_secure = True, g_community = False\<rparr>"

text \<open>
  A service that runs the job for two polls and then reports it completed, and whose log
  endpoint hands out the tail of a log file that grows by ten bytes per poll.
\<close>

definition example_log :: string where
  "example_log = ''0123456789abcdefghijklmnopqrst''"

definition example_demucs_env :: demucs_env where
  "example_demucs_env =
     \<lparr>server_status_answer = (\<lambda>k. Returns True),
      post_job_answer = Returns ''job-1'',
      job_status_answer = (\<lambda>k job_id. Returns
         \<lparr>js_status = (if k < 2 then ''running'' else ''completed''), js_error = None,
          js_details = Some \<lparr>completed_segments = Some (int k), total_segments = Some 2\<rparr>\<rparr>),
      job_logs_answer = (\<lambda>k job_id offset. Returns
         \<lparr>ld_logs = Some (drop offset (take (10 * Suc k) example_log)),
          ld_offset = Some (offset + length (drop offset (take (10 * Suc k) example_log)))\<rparr>),
      result_answer = (\<lambda>job_id. Returns ''ID3 instrumental''),
      mkdir_error = None,
      job_poll_seconds = (\<lambda>k. 1)\<rparr>"

definition example_vast_args :: vast_args where
  "example_vast_args =
     \<lparr>va_input_url = ''https://example.com/a.mp3'', va_output = ''./results'',
      va_interval_cut = None, va_keep_instance = False\<rparr>"

definition example_runpod_args :: runpod_args where
  "example_runpod_args =
     \<lparr>ra_input = ''https://example.com/a.mp3'', ra_output = ''./results'',
      ra_interval_cut = None, ra_all_stems = False, ra_keep_pod = False\<rparr>"

section \<open>The example inputs, evaluated\<close>

lemma example_ranked:
  "get_ranked_offers (bundles_answer example_vast_env) 20 =
     [\<lparr>o_id = 3, o_gpu_name = ''GTX 1650'', o_gpu_ram = 4, o_price_per_hour = 9 / 50, o_reliability = 23 / 25\<rparr>,
      \<lparr>o_id = 1, o_gpu_name = ''RTX 3090'', o_gpu_ram = 16, o_price_per_hour = 1 / 5, o_reliability = 19 / 20\<rparr>]"
  by (simp add: example_vast_env_def example_offers_def get_ranked_offers_def search_offers_def
        parse_offer_def Let_def)

lemma example_ranked_10:
  "get_ranked_offers (bundles_answer example_vast_env) 10 =
     [\<lparr>o_id = 3, o_gpu_name = ''GTX 1650'', o_gpu_ram = 4, o_price_per_hour = 9 / 50, o_reliability = 23 / 25\<rparr>,
      \<lparr>o_id = 1, o_gpu_name = ''RTX 3090'', o_gpu_ram = 16, o_price_per_hour = 1 / 5, o_reliability = 19 / 20\<rparr>]"
  by (simp add: example_vast_env_def example_offers_def get_ranked_offers_def search_offers_def
        parse_offer_def Let_def)

lemma example_available_gpus:
  "get_available_gpus (gpu_types_answer example_runpod_env) = Inr [gpu_t4, gpu_3090, gpu_4090]"
  by (simp add: example_runpod_env_def example_gpu_types_def get_available_gpus_def enough_vram_def
        MIN_VRAM_GB_def gpu_of_def lowest_price_def price_or_def gpu_t4_def gpu_3090_def gpu_4090_def)

lemma lower_examples:
  "lower ''NVIDIA RTX 3090'' = ''nvidia rtx 3090''"
  "lower ''NVIDIA RTX 4090'' = ''nvidia rtx 4090''"
  "lower ''Tesla T4'' = ''tesla t4''"
  by (simp_all add: lower_def lower_char_def)

lemma lower_char_plus_32:
  "65 \<le> (of_char c :: nat) \<Longrightarrow> (of_char c :: nat) \<le> 90 \<Longrightarrow>
     of_char (lower_char c) = (of_char c :: nat) + 32"
  by (cases c) (auto simp add: lower_char_def of_bool_def split: if_splits)

lemma example_rank_gpus:
  "rank_gpus [gpu_t4, gpu_3090, gpu_4090] 10 = [gpu_3090, gpu_4090, gpu_t4]"
  by (simp add: rank_gpus_def PREFERRED_GPUS_def matches_def contains_def gpu_t4_def gpu_3090_def
        gpu_4090_def lower_def lower_char_def sublist_Cons_right)

lemma example_ranked_gpus:
  "get_ranked_gpus (gpu_types_answer example_runpod_env) 10 = Inr [gpu_3090, gpu_4090, gpu_t4]"
  by (simp add: get_ranked_gpus_def example_available_gpus example_rank_gpus)

section \<open>Results about the ranking\<close>

lemma pick_preferred_find:
  "pick_preferred preferred gpus used = find (\<lambda>gpu. matches preferred gpu \<and> g_id gpu \<notin> used) gpus"
  by (induction gpus) simp_all

lemma add_preferred_spec:
  "add_preferred models cheapest (ranked, used) =
     (ranked @ spec_preferred models cheapest used,
      used \<union> g_id ` set (spec_preferred models cheapest used))"
  by (induction models arbitrary: ranked used) (auto simp add: pick_preferred_find split: option.splits)

lemma add_remaining_distinct:
  "distinct (map g_id gpus) \<Longrightarrow>
     fst (add_remaining gpus (ranked, used)) = ranked @ filter (\<lambda>gpu. g_id gpu \<notin> used) gpus"
proof (induction gpus arbitrary: ranked used)
  case Nil
  show ?case by simp
next
  case (Cons gpu rest)
  have d: "distinct (map g_id rest)" and n: "g_id gpu \<notin> g_id ` set rest"
    using Cons.prems by simp_all
  have same: "filter (\<lambda>x. g_id x \<notin> insert (g_id gpu) used) rest = filter (\<lambda>x. g_id x \<notin> used) rest"
  proof (rule filter_cong [OF refl])
    fix x assume "x \<in> set rest"
    then have "g_id x \<noteq> g_id gpu" using n by (metis image_eqI)
    then show "(g_id x \<notin> insert (g_id gpu) used) = (g_id x \<notin> used)" by simp
  qed
  show ?case using Cons.IH [OF d] same by simp
qed

lemma add_remaining_subset:
  "set (fst (add_remaining gpus (ranked, used))) \<subseteq> set ranked \<union> set gpus"
proof (induction gpus arbitrary: ranked used)
  case Nil
  show ?case by simp
next
  case (Cons gpu rest)
  show ?case
    using Cons [of "ranked @ [gpu]" "insert (g_id gpu) used"] Cons [of ranked used]
    by auto
qed

lemma spec_preferred_subset:
  "set (spec_preferred models cheapest claimed) \<subseteq> set cheapest"
proof (induction models arbitrary: claimed)
  case Nil
  show ?case by simp
next
  case (Cons model models)
  show ?case
  proof (cases "find (\<lambda>gpu. matches model gpu \<and> g_id gpu \<notin> claimed) cheapest")
    case None
    then show ?thesis using Cons by simp
  next
    case (Some gpu)
    then have "gpu \<in> set cheapest" by (auto simp add: find_Some_iff)
    then show ?thesis using Some Cons by auto
  qed
qed

lemma spec_preferred_matches:
  "\<forall>gpu \<in> set (spec_preferred models cheapest claimed). \<exists>model \<in> set models. matches model gpu"
proof (induction models arbitrary: claimed)
  case Nil
  show ?case by simp
next
  case (Cons model models)
  show ?case
  proof (cases "find (\<lambda>gpu. matches model gpu \<and> g_id gpu \<notin> claimed) cheapest")
    case None
    then show ?thesis using Cons by auto
  next
    case (Some gpu)
    then have "matches model gpu" by (auto simp add: find_Some_iff)
    then show ?thesis using Some Cons by auto
  qed
qed

lemma spec_preferred_length:
  "length (spec_preferred models cheapest claimed) \<le> length models"
proof (induction models arbitrary: claimed)
  case Nil
  show ?case by simp
next
  case (Cons model models)
  show ?case
    using Cons [of claimed] Cons [of "insert (g_id (the (find (\<lambda>gpu. matches model gpu \<and> g_id gpu \<notin> claimed) cheapest))) claimed"]
    by (auto split: option.splits simp add: le_SucI)
qed

lemma spec_preferred_Nil: "spec_preferred models [] claimed = []"
  by (induction models) simp_all

lemma rank_gpus_spec:
  "distinct (map g_id gpus) \<Longrightarrow> rank_gpus gpus n = spec_rank gpus n"
  by (simp add: rank_gpus_def spec_rank_def Let_def add_preferred_spec add_remaining_distinct
        spec_preferred_Nil)

lemma rank_gpus_subset: "set (rank_gpus gpus n) \<subseteq> set gpus"
proof -
  have "set (fst (add_remaining gpus (add_preferred PREFERRED_GPUS (take 10 gpus) ([], {}))))
          \<subseteq> set (spec_preferred PREFERRED_GPUS (take 10 gpus) {}) \<union> set gpus"
    unfolding add_preferred_spec using add_remaining_subset by fastforce
  also have "\<dots> \<subseteq> set gpus"
    using spec_preferred_subset [of PREFERRED_GPUS "take 10 gpus" "{}"] set_take_subset [of 10 gpus]
    by blast
  finally show ?thesis
    using set_take_subset [of n "fst (add_remaining gpus (add_preferred PREFERRED_GPUS (take 10 gpus) ([], {})))"]
    by (auto simp add: rank_gpus_def)
qed

lemma get_available_gpus_Inr:
  assumes "get_available_gpus response = Inr gpus"
  shows "sorted (map g_price_per_hour gpus) \<and> (\<forall>gpu \<in> set gpus. MIN_VRAM_GB \<le> g_vram_gb gpu)"
proof -
  from assms obtain raw where g: "gpus = sort_key g_price_per_hour (map gpu_of (filter enough_vram raw))"
    by (auto simp add: get_available_gpus_def split: answer.splits graphql.splits)
  have "\<forall>gpu \<in> set gpus. MIN_VRAM_GB \<le> g_vram_gb gpu"
    unfolding g by (auto simp add: enough_vram_def gpu_of_def)
  moreover have "sorted (map g_price_per_hour gpus)"
    unfolding g by (rule sorted_sort_key)
  ultimately show ?thesis by simp
qed

lemma get_ranked_offers_eq:
  "get_ranked_offers response n =
     take n (sort_key o_price_per_hour
               (filter (\<lambda>offer. 9 / 10 \<le> o_reliability offer) (search_offers response (n * 2))))"
  by (simp add: get_ranked_offers_def Let_def)

lemma sorted_take_map: "sorted (map f xs) \<Longrightarrow> sorted (map f (take n xs))"
  by (metis sorted_wrt_take take_map)

text \<open>
  C6, as the code has it.  RunPod client: every GPU of the ranked output has at least
  \<^verbatim>\<open>MIN_VRAM_GB\<close> of memory (GPU types carry no reliability); for GPU types with
  pairwise different ids the output is the specification's ranking of the filtered list
  sorted by price: the first unclaimed match of each preferred model among the cheapest 10,
  in the order of the preferred list, then the unclaimed GPUs in price order, cut to
  \<open>max_results\<close>; the picks come from the cheapest 10, each matches a preferred model and
  there are at most as many as preferred models; an empty filtered list gives an empty
  ranking.  Vast.ai client: the output is the first \<open>2 * max_results\<close> offers of the answer,
  filtered by reliability at least 0.9, sorted by price and cut to \<open>max_results\<close>; there is
  no preferred model, and the memory bound is in the query only.
\<close>

theorem ranking_as_coded:
  "(get_ranked_gpus response n = Inr ranked \<longrightarrow>
      (\<exists>gpus. get_available_gpus response = Inr gpus \<and>
         sorted (map g_price_per_hour gpus) \<and>
         (\<forall>gpu \<in> set ranked. MIN_VRAM_GB \<le> g_vram_gb gpu) \<and>
         length ranked \<le> n \<and>
         (gpus = [] \<longrightarrow> ranked = []) \<and>
         (distinct (map g_id gpus) \<longrightarrow>
            ranked = spec_rank gpus n \<and>
            sorted (map g_price_per_hour
              (filter (\<lambda>gpu. g_id gpu \<notin> g_id ` set (spec_preferred PREFERRED_GPUS (take 10 gpus) {})) gpus))))) \<and>
   set (spec_preferred PREFERRED_GPUS cheapest {}) \<subseteq> set cheapest \<and>
   (\<forall>gpu \<in> set (spec_preferred PREFERRED_GPUS cheapest {}). \<exists>model \<in> set PREFERRED_GPUS. matches model gpu) \<and>
   length (spec_preferred PREFERRED_GPUS cheapest {}) \<le> length PREFERRED_GPUS \<and>
   get_ranked_offers vast_response n =
     take n (sort_key o_price_per_hour
               (filter (\<lambda>offer. 9 / 10 \<le> o_reliability offer) (search_offers vast_response (n * 2)))) \<and>
   (\<forall>offer \<in> set (get_ranked_offers vast_response n). 9 / 10 \<le> o_reliability offer) \<and>
   sorted (map o_price_per_hour (get_ranked_offers vast_response n)) \<and>
   length (get_ranked_offers vast_response n) \<le> n"
proof (intro conjI impI)
  assume r: "get_ranked_gpus response n = Inr ranked"
  then obtain gpus where g: "get_available_gpus response = Inr gpus" and k: "ranked = rank_gpus gpus n"
    by (auto simp add: get_ranked_gpus_def split: sum.splits)
  note a = get_available_gpus_Inr [OF g]
  have v: "\<forall>gpu \<in> set ranked. MIN_VRAM_GB \<le> g_vram_gb gpu"
    using a rank_gpus_subset [of gpus n] k by blast
  have l: "length ranked \<le> n" unfolding k by (simp add: rank_gpus_def)
  have e: "gpus = [] \<longrightarrow> ranked = []" unfolding k by (simp add: rank_gpus_def)
  have d: "distinct (map g_id gpus) \<longrightarrow>
            ranked = spec_rank gpus n \<and>
            sorted (map g_price_per_hour
              (filter (\<lambda>gpu. g_id gpu \<notin> g_id ` set (spec_preferred PREFERRED_GPUS (take 10 gpus) {})) gpus))"
    using a k by (simp add: rank_gpus_spec sorted_filter)
  show "\<exists>gpus. get_available_gpus response = Inr gpus \<and>
         sorted (map g_price_per_hour gpus) \<and>
         (\<forall>gpu \<in> set ranked. MIN_VRAM_GB \<le> g_vram_gb gpu) \<and>
         length ranked \<le> n \<and>
         (gpus = [] \<longrightarrow> ranked = []) \<and>
         (distinct (map g_id gpus) \<longrightarrow>
            ranked = spec_rank gpus n \<and>
            sorted (map g_price_per_hour
              (filter (\<lambda>gpu. g_id gpu \<notin> g_id ` set (spec_preferred PREFERRED_GPUS (take 10 gpus) {})) gpus)))"
    using g a v l e d by blast
next
  show "set (spec_preferred PREFERRED_GPUS cheapest {}) \<subseteq> set cheapest"
    by (rule spec_preferred_subset)
next
  show "\<forall>gpu \<in> set (spec_preferred PREFERRED_GPUS cheapest {}). \<exists>model \<in> set PREFERRED_GPUS. matches model gpu"
    by (rule spec_preferred_matches)
next
  show "length (spec_preferred PREFERRED_GPUS cheapest {}) \<le> length PREFERRED_GPUS"
    by (rule spec_preferred_length)
next
  show "get_ranked_offers vast_response n =
     take n (sort_key o_price_per_hour
               (filter (\<lambda>offer. 9 / 10 \<le> o_reliability offer) (search_offers vast_response (n * 2))))"
    by (rule get_ranked_offers_eq)
next
  show "\<forall>offer \<in> set (get_ranked_offers vast_response n). 9 / 10 \<le> o_reliability offer"
    unfolding get_ranked_offers_eq by (auto dest: in_set_takeD)
next
  show "sorted (map o_price_per_hour (get_ranked_offers vast_response n))"
    unfolding get_ranked_offers_eq by (intro sorted_take_map sorted_sort_key)
next
  show "length (get_ranked_offers vast_response n) \<le> n"
    unfolding get_ranked_offers_eq by simp
qed

lemma example_spec_rank:
  "spec_rank [gpu_t4, gpu_3090, gpu_4090] 10 = [gpu_3090, gpu_4090, gpu_t4]"
  by (simp add: spec_rank_def PREFERRED_GPUS_def matches_def contains_def gpu_t4_def gpu_3090_def
        gpu_4090_def lower_def lower_char_def sublist_Cons_right Let_def)

theorem ranking_as_coded_witness:
  "get_ranked_gpus (gpu_types_answer example_runpod_env) 10 = Inr [gpu_3090, gpu_4090, gpu_t4] \<and>
   get_available_gpus (gpu_types_answer example_runpod_env) = Inr [gpu_t4, gpu_3090, gpu_4090] \<and>
   distinct (map g_id [gpu_t4, gpu_3090, gpu_4090]) \<and>
   [gpu_3090, gpu_4090, gpu_t4] = spec_rank [gpu_t4, gpu_3090, gpu_4090] 10 \<and>
   list_all (\<lambda>gpu. MIN_VRAM_GB \<le> g_vram_gb gpu) [gpu_3090, gpu_4090, gpu_t4] \<and>
   list_all (\<lambda>offer. 9 / 10 \<le> o_reliability offer) (get_ranked_offers (bundles_answer example_vast_env) 10) \<and>
   map o_id (get_ranked_offers (bundles_answer example_vast_env) 10) = [3, 1]"
proof -
  define ranked where "ranked = [gpu_3090, gpu_4090, gpu_t4]"
  define avail where "avail = [gpu_t4, gpu_3090, gpu_4090]"
  have r: "get_ranked_gpus (gpu_types_answer example_runpod_env) 10 = Inr ranked"
    by (simp only: ranked_def example_ranked_gpus)
  have a: "get_available_gpus (gpu_types_answer example_runpod_env) = Inr avail"
    by (simp only: avail_def example_available_gpus)
  have d: "distinct (map g_id avail)"
    by (simp add: avail_def gpu_t4_def gpu_3090_def gpu_4090_def)
  note T = ranking_as_coded [of "gpu_types_answer example_runpod_env" 10 ranked "[]"
      "bundles_answer example_vast_env"]
  from T [THEN conjunct1, THEN mp, OF r]
  obtain gpus where g: "get_available_gpus (gpu_types_answer example_runpod_env) = Inr gpus"
    and v: "\<forall>gpu \<in> set ranked. MIN_VRAM_GB \<le> g_vram_gb gpu"
    and s: "distinct (map g_id gpus) \<longrightarrow> ranked = spec_rank gpus 10 \<and>
            sorted (map g_price_per_hour
              (filter (\<lambda>gpu. g_id gpu \<notin> g_id ` set (spec_preferred PREFERRED_GPUS (take 10 gpus) {})) gpus))"
    by blast
  from g a have "gpus = avail" by simp
  with s d have sr: "ranked = spec_rank avail 10" by blast
  have rel: "\<forall>offer \<in> set (get_ranked_offers (bundles_answer example_vast_env) 10). 9 / 10 \<le> o_reliability offer"
    by (rule T [THEN conjunct2, THEN conjunct2, THEN conjunct2, THEN conjunct2, THEN conjunct2,
          THEN conjunct1])
  have ids: "map o_id (get_ranked_offers (bundles_answer example_vast_env) 10) = [3, 1]"
    unfolding example_ranked_10 by simp
  have v': "list_all (\<lambda>gpu. MIN_VRAM_GB \<le> g_vram_gb gpu) ranked"
    using v by (simp only: list_all_iff)
  have rel': "list_all (\<lambda>offer. 9 / 10 \<le> o_reliability offer) (get_ranked_offers (bundles_answer example_vast_env) 10)"
    using rel by (simp only: list_all_iff)
  show ?thesis
    using r a d sr v' rel' ids unfolding ranked_def avail_def by (intro conjI)
qed

text \<open>
  The specification's sentence (every ranked offer passes the memory filter) does not hold for
  the Vast.ai client: an offer with 4 GB in the marketplace's answer is ranked first.
\<close>

theorem ranking_vram_counterexample:
  "get_ranked_offers (Returns (Some example_offers)) 10 =
     [\<lparr>o_id = 3, o_gpu_name = ''GTX 1650'', o_gpu_ram = 4, o_price_per_hour = 9 / 50, o_reliability = 23 / 25\<rparr>,
      \<lparr>o_id = 1, o_gpu_name = ''RTX 3090'', o_gpu_ram = 16, o_price_per_hour = 1 / 5, o_reliability = 19 / 20\<rparr>] \<and>
   \<not> (\<forall>offer \<in> set (get_ranked_offers (Returns (Some example_offers)) 10). 8 \<le> o_gpu_ram offer)"
  by (simp add: example_offers_def get_ranked_offers_def search_offers_def parse_offer_def Let_def)

section \<open>Results about the batch launcher\<close>

lemma launch_instance_counts:
  "success_count (snd (launch_instance env t i)) + fail_count (snd (launch_instance env t i))
     = success_count t + fail_count t + 1"
  by (simp add: launch_instance_def get_next_offer_def Let_def split: sum.splits prod.splits)

lemma launch_instance_offers:
  "available_offers (snd (launch_instance env t i)) = available_offers t"
  by (auto simp add: launch_instance_def get_next_offer_def Let_def split: sum.splits prod.splits if_splits)

lemma launch_instance_index:
  "available_offers t \<noteq> [] \<Longrightarrow> offer_index (snd (launch_instance env t i)) = offer_index t + 1"
  by (auto simp add: launch_instance_def get_next_offer_def Let_def split: sum.splits prod.splits if_splits)

lemma launch_loop_append:
  "launch_loop env t (xs @ ys) = launch_loop env (launch_loop env t xs) ys"
  by (induction xs arbitrary: t) simp_all

lemma launch_loop_upt_Suc:
  "launch_loop env t [0 ..< Suc k] = snd (launch_instance env (launch_loop env t [0 ..< k]) k)"
  by (simp add: launch_loop_append)

lemma launch_loop_counts:
  "success_count (launch_loop env t [0 ..< k]) + fail_count (launch_loop env t [0 ..< k])
     = success_count t + fail_count t + k"
proof (induction k)
  case 0
  show ?case by simp
next
  case (Suc k)
  show ?case
    unfolding launch_loop_upt_Suc using Suc launch_instance_counts [of env "launch_loop env t [0 ..< k]" k]
    by simp
qed

lemma launch_loop_offers:
  "available_offers (launch_loop env t [0 ..< k]) = available_offers t"
proof (induction k)
  case 0
  show ?case by simp
next
  case (Suc k)
  show ?case
    unfolding launch_loop_upt_Suc using Suc by (simp add: launch_instance_offers)
qed

lemma launch_loop_index:
  "available_offers t \<noteq> [] \<Longrightarrow> offer_index (launch_loop env t [0 ..< k]) = offer_index t + k"
proof (induction k)
  case 0
  show ?case by simp
next
  case (Suc k)
  then show ?case
    unfolding launch_loop_upt_Suc by (simp add: launch_instance_index launch_loop_offers)
qed

lemma InstanceTester_Inr:
  "InstanceTester env n = Inr t \<Longrightarrow>
     available_offers t = get_ranked_offers (bundles_answer env) 20 \<and> available_offers t \<noteq> [] \<and>
     success_count t = 0 \<and> fail_count t = 0 \<and> offer_index t = 0 \<and> num_instances t = n"
  by (auto simp add: InstanceTester_def Let_def split: if_splits)

text \<open>
  C8.  In a batch of \<open>n\<close> sequential launches, after every attempt the two counters add up
  to the number of attempts made so far (\<open>k\<close> of them, for every \<open>k \<le> n\<close>, hence \<open>n\<close> at
  the end), the offer list is still the one ranked list fetched by the constructor, and the
  launch that comes next (launch \<open>k\<close>, counting from 0) takes the offer at index
  \<open>k mod length\<close> of that list.
\<close>

theorem batch_counts_and_round_robin:
  assumes "InstanceTester env n = Inr t" and "k \<le> n"
  shows "success_count (launch_loop env t [0 ..< k]) + fail_count (launch_loop env t [0 ..< k]) = k \<and>
         available_offers (launch_loop env t [0 ..< k]) = get_ranked_offers (bundles_answer env) 20 \<and>
         map_sum id fst (get_next_offer (launch_loop env t [0 ..< k])) =
           Inr (get_ranked_offers (bundles_answer env) 20 !
                  (k mod length (get_ranked_offers (bundles_answer env) 20))) \<and>
         launch_loop env t [0 ..< n] = launch_loop env (launch_loop env t [0 ..< k]) [k ..< n]"
proof -
  from assms(1) have t: "available_offers t = get_ranked_offers (bundles_answer env) 20"
    "available_offers t \<noteq> []" "success_count t = 0" "fail_count t = 0" "offer_index t = 0"
    using InstanceTester_Inr by blast+
  have c: "success_count (launch_loop env t [0 ..< k]) + fail_count (launch_loop env t [0 ..< k]) = k"
    using launch_loop_counts [of env t k] t by simp
  have o: "available_offers (launch_loop env t [0 ..< k]) = get_ranked_offers (bundles_answer env) 20"
    using launch_loop_offers [of env t k] t by simp
  have i: "offer_index (launch_loop env t [0 ..< k]) = k"
    using launch_loop_index [of t env k] t by simp
  have g: "map_sum id fst (get_next_offer (launch_loop env t [0 ..< k])) =
           Inr (get_ranked_offers (bundles_answer env) 20 !
                  (k mod length (get_ranked_offers (bundles_answer env) 20)))"
    using o i t by (simp add: get_next_offer_def)
  have "[0 ..< n] = [0 ..< k] @ [k ..< n]"
    using assms(2) by (metis le_add_diff_inverse upt_add_eq_append zero_le)
  then have s: "launch_loop env t [0 ..< n] = launch_loop env (launch_loop env t [0 ..< k]) [k ..< n]"
    by (simp add: launch_loop_append)
  show ?thesis using c o g s by simp
qed

theorem batch_counts_and_round_robin_witness:
  "InstanceTester example_vast_env 3 =
     Inr \<lparr>num_instances = 3, instances = [], success_count = 0, fail_count = 0, offer_index = 0,
          available_offers = get_ranked_offers (bundles_answer example_vast_env) 20\<rparr> \<and>
   (3::nat) \<le> 3 \<and>
   success_count (launch_loop example_vast_env
      \<lparr>num_instances = 3, instances = [], success_count = 0, fail_count = 0, offer_index = 0,
          available_offers = get_ranked_offers (bundles_answer example_vast_env) 20\<rparr> [0 ..< 3]) = 1 \<and>
   fail_count (launch_loop example_vast_env
      \<lparr>num_instances = 3, instances = [], success_count = 0, fail_count = 0, offer_index = 0,
          available_offers = get_ranked_offers (bundles_answer example_vast_env) 20\<rparr> [0 ..< 3]) = 2 \<and>
   map_sum id fst (get_next_offer (launch_loop example_vast_env
      \<lparr>num_instances = 3, instances = [], success_count = 0, fail_count = 0, offer_index = 0,
          available_offers = get_ranked_offers (bundles_answer example_vast_env) 20\<rparr> [0 ..< 3])) =
     Inr \<lparr>o_id = 1, o_gpu_name = ''RTX 3090'', o_gpu_ram = 16, o_price_per_hour = 1 / 5,
          o_reliability = 19 / 20\<rparr>"
proof -
  let ?t = "\<lparr>num_instances = 3, instances = [], success_count = 0, fail_count = 0, offer_index = 0,
          available_offers = get_ranked_offers (bundles_answer example_vast_env) 20\<rparr>"
  have i: "InstanceTester example_vast_env 3 = Inr ?t"
    by (simp add: InstanceTester_def Let_def example_ranked) (simp add: example_vast_env_def)
  have u: "[0 ..< 3] = [0, 1, 2]" by (simp add: upt_rec)
  have s: "success_count (launch_loop example_vast_env ?t [0 ..< 3]) = 1"
    unfolding u example_ranked
    by (simp add: launch_instance_def get_next_offer_def create_instance_def Let_def
          example_vast_env_def)
  have m: "(3::nat) mod Suc (Suc 0) = Suc 0" by presburger
  show ?thesis
    using batch_counts_and_round_robin [OF i, of 3] s i m
    by (simp add: example_ranked)
qed

lemma destroy_loop_calls:
  "destroy_loop env k insts (calls, success, failed) =
     (calls @ map (\<lambda>(j, inst). (info_id inst, destroy_instance (delete_answer env j (info_id inst))))
                (zip [k ..< k + length insts] insts),
      success + length insts, failed)"
proof (induction insts arbitrary: k calls success)
  case Nil
  show ?case by simp
next
  case (Cons inst insts)
  have "k < Suc k + length insts" by simp
  then have "[k ..< Suc k + length insts] = k # [Suc k ..< Suc k + length insts]"
    by (rule upt_conv_Cons)
  moreover have "k + length (inst # insts) = Suc k + length insts" by simp
  ultimately have "[k ..< k + length (inst # insts)] = k # [Suc k ..< Suc k + length insts]"
    by (simp only:)
  then show ?case using Cons [of "Suc k"] by (simp del: upt_Suc)
qed

text \<open>
  C7, as the code has it.  The destroy-all pass removes the persisted file exactly when the
  file holds a non-empty list and the API key is set (or when there was no file to begin
  with): then every recorded instance got one destroy call, in order, each counted as a
  success whatever the call returned.  In the other cases the file stays as it was and no
  destroy call is made.  An unreadable file ends the pass with an exception.
\<close>

theorem destroy_all_removes_file:
  "(case destroy_all_instances env file of
      Inl e \<Rightarrow> file = Corrupt
    | Inr r \<Rightarrow>
        (file_after r = Absent \<longleftrightarrow>
           file = Absent \<or>
           (\<exists>insts key. file = Stored insts \<and> insts \<noteq> [] \<and> VASTAI_API_KEY env = Some key \<and> key \<noteq> [])) \<and>
        (file_after r \<noteq> Absent \<longrightarrow> file_after r = file \<and> destroy_calls r = []) \<and>
        (\<forall>insts. file = Stored insts \<and> file_after r = Absent \<longrightarrow>
           map fst (destroy_calls r) = map info_id insts \<and>
           destroyed_count r = length insts \<and> failed_count r = 0))"
proof (cases "file")
  case Absent
  then show ?thesis by (simp add: destroy_all_instances_def)
next
  case Corrupt
  then show ?thesis by (simp add: destroy_all_instances_def)
next
  case (Stored insts)
  show ?thesis
  proof (cases "insts = [] \<or> VASTAI_API_KEY env = None \<or> VASTAI_API_KEY env = Some []")
    case True
    then show ?thesis using Stored by (auto simp add: destroy_all_instances_def)
  next
    case False
    obtain calls success failed where d: "destroy_loop env 0 insts ([], 0, 0) = (calls, success, failed)"
      by (metis prod_cases3)
    have z: "map snd (zip [0 ..< length insts] insts) = insts"
      by (simp add: map_snd_zip)
    have "map (\<lambda>x. info_id (snd x)) (zip [0 ..< length insts] insts) =
          map info_id (map snd (zip [0 ..< length insts] insts))"
      by (simp only: map_map comp_def)
    also have "\<dots> = map info_id insts"
      by (simp only: z)
    finally have "map (\<lambda>x. info_id (snd x)) (zip [0 ..< length insts] insts) = map info_id insts" .
    then have "map fst calls = map info_id insts" "success = length insts" "failed = 0"
      using d unfolding destroy_loop_calls by (auto simp add: comp_def case_prod_unfold)
    then show ?thesis using Stored False d by (auto simp add: destroy_all_instances_def)
  qed
qed

theorem destroy_all_removes_file_witness:
  "destroy_all_instances (example_vast_env\<lparr>delete_answer := \<lambda>k instance_id. Returns (Some True)\<rparr>)
     (Stored [\<lparr>info_index = 0, info_id = 7001, info_offer_id = 1, info_gpu = ''RTX 3090'',
               info_price = 1 / 5, info_created_at = ''2024-01-01T00:00:00''\<rparr>]) =
   Inr \<lparr>file_after = Absent, destroy_calls = [(7001, True)], destroyed_count = 1, failed_count = 0\<rparr> \<and>
   destroy_all_instances (example_vast_env\<lparr>VASTAI_API_KEY := None\<rparr>)
     (Stored [\<lparr>info_index = 0, info_id = 7001, info_offer_id = 1, info_gpu = ''RTX 3090'',
               info_price = 1 / 5, info_created_at = ''2024-01-01T00:00:00''\<rparr>]) =
   Inr \<lparr>file_after = Stored [\<lparr>info_index = 0, info_id = 7001, info_offer_id = 1, info_gpu = ''RTX 3090'',
               info_price = 1 / 5, info_created_at = ''2024-01-01T00:00:00''\<rparr>],
        destroy_calls = [], destroyed_count = 0, failed_count = 0\<rparr>"
  using destroy_all_removes_file
    [of "Stored [\<lparr>info_index = 0, info_id = 7001, info_offer_id = 1, info_gpu = ''RTX 3090'',
               info_price = 1 / 5, info_created_at = ''2024-01-01T00:00:00''\<rparr>]"
        "example_vast_env\<lparr>delete_answer := \<lambda>k instance_id. Returns (Some True)\<rparr>"]
    destroy_all_removes_file
    [of "Stored [\<lparr>info_index = 0, info_id = 7001, info_offer_id = 1, info_gpu = ''RTX 3090'',
               info_price = 1 / 5, info_created_at = ''2024-01-01T00:00:00''\<rparr>]"
        "example_vast_env\<lparr>VASTAI_API_KEY := None\<rparr>"]
  by (simp add: destroy_all_instances_def destroy_instance_def example_vast_env_def)

text \<open>
  The specification's sentence (the file is kept when a destroy fails) does not hold: the one
  recorded instance is not destroyed, the marketplace answering 404, and the file is gone.
\<close>

theorem destroy_all_keeps_file_counterexample:
  "destroy_all_instances example_vast_env
     (Stored [\<lparr>info_index = 0, info_id = 7001, info_offer_id = 1, info_gpu = ''RTX 3090'',
               info_price = 1 / 5, info_created_at = ''2024-01-01T00:00:00''\<rparr>]) =
   Inr \<lparr>file_after = Absent, destroy_calls = [(7001, False)], destroyed_count = 1, failed_count = 0\<rparr>"
  by (simp add: destroy_all_instances_def destroy_instance_def example_vast_env_def)

section \<open>Results about destroying an instance\<close>

text \<open>
  C9, as the code has it.  The destroy operation hands on what the marketplace answered and
  nothing else: \<^verbatim>\<open>destroy_instance\<close> returns true exactly when the DELETE call came back
  with a true \<^verbatim>\<open>success\<close> flag, and false on every error; \<^verbatim>\<open>stop_pod\<close> returns true
  exactly when the answer came back without \<^verbatim>\<open>errors\<close>, and raises otherwise.  Neither
  looks at whether the instance was already gone.
\<close>

theorem destroy_reports_marketplace_answer:
  "(destroy_instance response \<longleftrightarrow> response = Returns (Some True)) \<and>
   (VASTAI_API_KEY env = Some key \<and> key \<noteq> [] \<longrightarrow>
      cmd_destroy env k instance_id = Inr (delete_answer env k instance_id = Returns (Some True))) \<and>
   (stop_pod pod_response = Inr True \<longleftrightarrow> pod_response = Returns (GraphqlData ())) \<and>
   (pod_response \<noteq> Returns (GraphqlData ()) \<longrightarrow> (\<exists>e. stop_pod pod_response = Inl e))"
  by (auto simp add: destroy_instance_def cmd_destroy_def stop_pod_def
        split: answer.splits option.splits graphql.splits)

theorem destroy_reports_marketplace_answer_witness:
  "cmd_destroy (example_vast_env\<lparr>delete_answer := \<lambda>k instance_id. Returns (Some True)\<rparr>) 0 7001 = Inr True \<and>
   stop_pod (Returns (GraphqlErrors ''pod not found'')) = Inl (Exception ''Failed to stop pod: pod not found'')"
  using destroy_reports_marketplace_answer
    [of "Returns (Some True)" "example_vast_env\<lparr>delete_answer := \<lambda>k instance_id. Returns (Some True)\<rparr>"
        "''secret''" 0 7001 "Returns (GraphqlErrors ''pod not found'')"]
  by (simp add: example_vast_env_def stop_pod_def)

text \<open>
  The specification's sentence (destroying a destroyed instance counts as success) does not
  hold: the first destroy succeeds, the second, answered 404 by the marketplace, is reported
  as a failure.
\<close>

theorem destroy_twice_counterexample:
  "cmd_destroy (example_vast_env\<lparr>delete_answer := \<lambda>k instance_id.
        if k = 0 then Returns (Some True) else Raises ''404 Client Error: Not Found''\<rparr>) 0 7001 = Inr True \<and>
   cmd_destroy (example_vast_env\<lparr>delete_answer := \<lambda>k instance_id.
        if k = 0 then Returns (Some True) else Raises ''404 Client Error: Not Found''\<rparr>) 1 7001 = Inr False"
  by (simp add: cmd_destroy_def destroy_instance_def example_vast_env_def)

section \<open>Results about provisioning\<close>

lemma try_create_pod_None:
  "try_create_pod response = Inr None \<longleftrightarrow>
     create_pod response = Inr None \<or> (\<exists>e. create_pod response = Inl e \<and> unavailable e)"
  by (auto simp add: try_create_pod_def split: sum.splits)

lemma try_create_pod_Inl:
  "try_create_pod response = Inl e \<longleftrightarrow> create_pod response = Inl e \<and> \<not> unavailable e"
  by (auto simp add: try_create_pod_def split: sum.splits)

lemma runpod_provision_first_success:
  assumes "j < length gpus"
    and "\<forall>i<j. try_create_pod (deploy_answer env (k + i) (g_id (gpus ! i))) = Inr None"
    and "try_create_pod (deploy_answer env (k + j) (g_id (gpus ! j))) = Inr (Some pod)"
  shows "runpod_provision env k gpus = (map g_id (take (Suc j) gpus), Inr (Some (pod, gpus ! j)))"
  using assms
proof (induction gpus arbitrary: k j)
  case Nil
  then show ?case by simp
next
  case (Cons gpu rest)
  show ?case
  proof (cases j)
    case 0
    then show ?thesis using Cons.prems by simp
  next
    case (Suc j')
    have first: "try_create_pod (deploy_answer env k (g_id gpu)) = Inr None"
      using Cons.prems(2) Suc by (metis add.right_neutral nth_Cons_0 zero_less_Suc)
    have later: "\<forall>i<j'. try_create_pod (deploy_answer env (Suc k + i) (g_id (rest ! i))) = Inr None"
    proof (intro allI impI)
      fix i assume "i < j'"
      then have "Suc i < j" using Suc by simp
      then show "try_create_pod (deploy_answer env (Suc k + i) (g_id (rest ! i))) = Inr None"
        using Cons.prems(2) by (metis add_Suc_shift nth_Cons_Suc)
    qed
    have last: "try_create_pod (deploy_answer env (Suc k + j') (g_id (rest ! j'))) = Inr (Some pod)"
      using Cons.prems(3) Suc by simp
    have "j' < length rest" using Cons.prems(1) Suc by simp
    from Cons.IH [OF this later last] show ?thesis using first Suc by simp
  qed
qed

lemma runpod_provision_abort:
  assumes "j < length gpus"
    and "\<forall>i<j. try_create_pod (deploy_answer env (k + i) (g_id (gpus ! i))) = Inr None"
    and "try_create_pod (deploy_answer env (k + j) (g_id (gpus ! j))) = Inl e"
  shows "runpod_provision env k gpus = (map g_id (take (Suc j) gpus), Inl e)"
  using assms
proof (induction gpus arbitrary: k j)
  case Nil
  then show ?case by simp
next
  case (Cons gpu rest)
  show ?case
  proof (cases j)
    case 0
    then show ?thesis using Cons.prems by simp
  next
    case (Suc j')
    have first: "try_create_pod (deploy_answer env k (g_id gpu)) = Inr None"
      using Cons.prems(2) Suc by (metis add.right_neutral nth_Cons_0 zero_less_Suc)
    have later: "\<forall>i<j'. try_create_pod (deploy_answer env (Suc k + i) (g_id (rest ! i))) = Inr None"
    proof (intro allI impI)
      fix i assume "i < j'"
      then have "Suc i < j" using Suc by simp
      then show "try_create_pod (deploy_answer env (Suc k + i) (g_id (rest ! i))) = Inr None"
        using Cons.prems(2) by (metis add_Suc_shift nth_Cons_Suc)
    qed
    have last: "try_create_pod (deploy_answer env (Suc k + j') (g_id (rest ! j'))) = Inl e"
      using Cons.prems(3) Suc by simp
    have "j' < length rest" using Cons.prems(1) Suc by simp
    from Cons.IH [OF this later last] show ?thesis using first Suc by simp
  qed
qed

lemma runpod_provision_exhausted:
  assumes "\<forall>i<length gpus. try_create_pod (deploy_answer env (k + i) (g_id (gpus ! i))) = Inr None"
  shows "runpod_provision env k gpus = (map g_id gpus, Inr None)"
  using assms
proof (induction gpus arbitrary: k)
  case Nil
  then show ?case by simp
next
  case (Cons gpu rest)
  have first: "try_create_pod (deploy_answer env k (g_id gpu)) = Inr None"
    using Cons.prems by (metis add.right_neutral length_greater_0_conv list.discI nth_Cons_0)
  have later: "\<forall>i<length rest. try_create_pod (deploy_answer env (Suc k + i) (g_id (rest ! i))) = Inr None"
  proof (intro allI impI)
    fix i assume "i < length rest"
    then have "Suc i < length (gpu # rest)" by simp
    then show "try_create_pod (deploy_answer env (Suc k + i) (g_id (rest ! i))) = Inr None"
      using Cons.prems by (metis add_Suc_shift nth_Cons_Suc)
  qed
  from Cons.IH [OF later] show ?case using first by simp
qed

lemma vast_provision_first_success:
  assumes "j < length offers"
    and "\<forall>i<j. \<exists>e. create_instance (put_answer env (k + i) (o_id (offers ! i))) (o_id (offers ! i)) = Inl e"
    and "create_instance (put_answer env (k + j) (o_id (offers ! j))) (o_id (offers ! j)) = Inr inst"
  shows "vast_provision env k offers = (map o_id (take (Suc j) offers), Some inst)"
  using assms
proof (induction offers arbitrary: k j)
  case Nil
  then show ?case by simp
next
  case (Cons offer rest)
  show ?case
  proof (cases j)
    case 0
    then show ?thesis using Cons.prems by simp
  next
    case (Suc j')
    have first: "\<exists>e. create_instance (put_answer env k (o_id offer)) (o_id offer) = Inl e"
      using Cons.prems(2) Suc by (metis add.right_neutral nth_Cons_0 zero_less_Suc)
    have later: "\<forall>i<j'. \<exists>e. create_instance (put_answer env (Suc k + i) (o_id (rest ! i))) (o_id (rest ! i)) = Inl e"
    proof (intro allI impI)
      fix i assume "i < j'"
      then have "Suc i < j" using Suc by simp
      then show "\<exists>e. create_instance (put_answer env (Suc k + i) (o_id (rest ! i))) (o_id (rest ! i)) = Inl e"
        using Cons.prems(2) by (metis add_Suc_shift nth_Cons_Suc)
    qed
    have last: "create_instance (put_answer env (Suc k + j') (o_id (rest ! j'))) (o_id (rest ! j')) = Inr inst"
      using Cons.prems(3) Suc by simp
    have "j' < length rest" using Cons.prems(1) Suc by simp
    from Cons.IH [OF this later last] show ?thesis using first Suc by auto
  qed
qed

lemma vast_provision_exhausted:
  assumes "\<forall>i<length offers. \<exists>e. create_instance (put_answer env (k + i) (o_id (offers ! i))) (o_id (offers ! i)) = Inl e"
  shows "vast_provision env k offers = (map o_id offers, None)"
  using assms
proof (induction offers arbitrary: k)
  case Nil
  then show ?case by simp
next
  case (Cons offer rest)
  have first: "\<exists>e. create_instance (put_answer env k (o_id offer)) (o_id offer) = Inl e"
    using Cons.prems by (metis add.right_neutral length_greater_0_conv list.discI nth_Cons_0)
  have later: "\<forall>i<length rest. \<exists>e. create_instance (put_answer env (Suc k + i) (o_id (rest ! i))) (o_id (rest ! i)) = Inl e"
  proof (intro allI impI)
    fix i assume "i < length rest"
    then have "Suc i < length (offer # rest)" by simp
    then show "\<exists>e. create_instance (put_answer env (Suc k + i) (o_id (rest ! i))) (o_id (rest ! i)) = Inl e"
      using Cons.prems by (metis add_Suc_shift nth_Cons_Suc)
  qed
  from Cons.IH [OF later] show ?case using first by auto
qed

lemma unavailable_example:
  "unavailable (Exception ''Failed to create pod: This machine does not have the resources to deploy your pod.'')"
  by (simp add: unavailable_def lower_def lower_char_def contains_def sublist_Cons_right)

lemma NoneType_has_no_get_available: "\<not> unavailable (AttributeError NoneType_has_no_get)"
  by (simp add: unavailable_def NoneType_has_no_get_def lower_def lower_char_def contains_def
        sublist_Cons_right)

lemma create_pod_None: "create_pod response = Inr None \<longleftrightarrow> response = Returns (GraphqlData EmptyPod)"
  by (auto simp add: create_pod_def split: answer.splits graphql.splits pod_payload.splits)

lemma try_create_pod_NullPod:
  "try_create_pod (Returns (GraphqlData NullPod)) = Inl (AttributeError NoneType_has_no_get)"
  by (simp add: try_create_pod_def create_pod_def NoneType_has_no_get_available)

text \<open>
  C2, as the code has it.  RunPod client: a creation that fails with an exception whose text
  has \<^verbatim>\<open>resources\<close> or \<^verbatim>\<open>not have\<close> in it (or that returns the empty object) is
  swallowed and the next GPU is tried; when the GPU at position \<open>j\<close> (from 0) is the first
  whose creation returns a pod, that pod is the result and exactly the first \<open>j + 1\<close> GPUs
  were attempted; when it is the first whose creation fails with any other exception, that
  exception ends the loop after the same \<open>j + 1\<close> attempts; when every creation is
  swallowed, every GPU was attempted and there is no pod.  Vast.ai client: every failed
  creation, whatever its kind, is swallowed and the next offer tried; the first success ends
  the loop; a list of failures only gives no instance.  In both clients a loop that ends
  without an instance makes the command leave with status 1.  Of the answers without a pod,
  the RunPod client swallows the empty object only: a \<^verbatim>\<open>null\<close> payload makes
  \<^verbatim>\<open>create_pod\<close> raise an \<^verbatim>\<open>AttributeError\<close>, which is not about capacity and ends the
  loop like any other exception, and leaves the command before any pod is terminated.
\<close>

theorem provisioning_fallback:
  "(try_create_pod response = Inr None \<longleftrightarrow>
      create_pod response = Inr None \<or> (\<exists>e. create_pod response = Inl e \<and> unavailable e)) \<and>
   (j < length gpus \<and>
    (\<forall>i<j. try_create_pod (deploy_answer env (k + i) (g_id (gpus ! i))) = Inr None) \<longrightarrow>
      (\<forall>pod. create_pod (deploy_answer env (k + j) (g_id (gpus ! j))) = Inr (Some pod) \<longrightarrow>
         runpod_provision env k gpus = (map g_id (take (Suc j) gpus), Inr (Some (pod, gpus ! j)))) \<and>
      (\<forall>e. create_pod (deploy_answer env (k + j) (g_id (gpus ! j))) = Inl e \<and> \<not> unavailable e \<longrightarrow>
         runpod_provision env k gpus = (map g_id (take (Suc j) gpus), Inl e))) \<and>
   ((\<forall>i<length gpus. try_create_pod (deploy_answer env (k + i) (g_id (gpus ! i))) = Inr None) \<longrightarrow>
      runpod_provision env k gpus = (map g_id gpus, Inr None)) \<and>
   (j < length offers \<and>
    (\<forall>i<j. \<exists>e. create_instance (put_answer venv (k + i) (o_id (offers ! i))) (o_id (offers ! i)) = Inl e) \<longrightarrow>
      (\<forall>inst. create_instance (put_answer venv (k + j) (o_id (offers ! j))) (o_id (offers ! j)) = Inr inst \<longrightarrow>
         vast_provision venv k offers = (map o_id (take (Suc j) offers), Some inst))) \<and>
   ((\<forall>i<length offers. \<exists>e. create_instance (put_answer venv (k + i) (o_id (offers ! i))) (o_id (offers ! i)) = Inl e) \<longrightarrow>
      vast_provision venv k offers = (map o_id offers, None)) \<and>
   (RUNPOD_API_KEY env = Some rkey \<and> rkey \<noteq> [] \<and>
    get_ranked_gpus (gpu_types_answer env) 10 = Inr ranked \<and>
    runpod_provision env 0 ranked = (pod_attempts, Inr None) \<longrightarrow>
      runpod_cmd_separate env denv rargs = (map DeployCall pod_attempts, Inl (SystemExit 1))) \<and>
   (VASTAI_API_KEY venv = Some key \<and> key \<noteq> [] \<and>
    vast_provision venv 0 (get_ranked_offers (bundles_answer venv) 10) = (attempts, None) \<longrightarrow>
      vast_cmd_separate venv denv args = (map CreateCall attempts, Inl (SystemExit 1))) \<and>
   (create_pod response = Inr None \<longleftrightarrow> response = Returns (GraphqlData EmptyPod)) \<and>
   try_create_pod (Returns (GraphqlData NullPod)) = Inl (AttributeError NoneType_has_no_get) \<and>
   (j < length gpus \<and>
    (\<forall>i<j. try_create_pod (deploy_answer env (k + i) (g_id (gpus ! i))) = Inr None) \<and>
    deploy_answer env (k + j) (g_id (gpus ! j)) = Returns (GraphqlData NullPod) \<longrightarrow>
      runpod_provision env k gpus =
        (map g_id (take (Suc j) gpus), Inl (AttributeError NoneType_has_no_get))) \<and>
   (RUNPOD_API_KEY env = Some rkey \<and> rkey \<noteq> [] \<and>
    get_ranked_gpus (gpu_types_answer env) 10 = Inr ranked \<and>
    runpod_provision env 0 ranked = (pod_attempts, Inl exc) \<longrightarrow>
      runpod_cmd_separate env denv rargs = (map DeployCall pod_attempts, Inl exc))"
proof (intro conjI impI allI)
  show "try_create_pod response = Inr None \<longleftrightarrow>
      create_pod response = Inr None \<or> (\<exists>e. create_pod response = Inl e \<and> unavailable e)"
    by (rule try_create_pod_None)
next
  fix pod
  assume a: "j < length gpus \<and>
    (\<forall>i<j. try_create_pod (deploy_answer env (k + i) (g_id (gpus ! i))) = Inr None)"
    and b: "create_pod (deploy_answer env (k + j) (g_id (gpus ! j))) = Inr (Some pod)"
  from b have "try_create_pod (deploy_answer env (k + j) (g_id (gpus ! j))) = Inr (Some pod)"
    by (simp add: try_create_pod_def)
  with a show "runpod_provision env k gpus = (map g_id (take (Suc j) gpus), Inr (Some (pod, gpus ! j)))"
    using runpod_provision_first_success by blast
next
  fix e
  assume a: "j < length gpus \<and>
    (\<forall>i<j. try_create_pod (deploy_answer env (k + i) (g_id (gpus ! i))) = Inr None)"
    and b: "create_pod (deploy_answer env (k + j) (g_id (gpus ! j))) = Inl e \<and> \<not> unavailable e"
  from b have "try_create_pod (deploy_answer env (k + j) (g_id (gpus ! j))) = Inl e"
    by (simp add: try_create_pod_Inl)
  with a show "runpod_provision env k gpus = (map g_id (take (Suc j) gpus), Inl e)"
    using runpod_provision_abort by blast
next
  assume "\<forall>i<length gpus. try_create_pod (deploy_answer env (k + i) (g_id (gpus ! i))) = Inr None"
  then show "runpod_provision env k gpus = (map g_id gpus, Inr None)"
    by (rule runpod_provision_exhausted)
next
  fix inst
  assume a: "j < length offers \<and>
    (\<forall>i<j. \<exists>e. create_instance (put_answer venv (k + i) (o_id (offers ! i))) (o_id (offers ! i)) = Inl e)"
    and b: "create_instance (put_answer venv (k + j) (o_id (offers ! j))) (o_id (offers ! j)) = Inr inst"
  then show "vast_provision venv k offers = (map o_id (take (Suc j) offers), Some inst)"
    using vast_provision_first_success by blast
next
  assume "\<forall>i<length offers. \<exists>e. create_instance (put_answer venv (k + i) (o_id (offers ! i))) (o_id (offers ! i)) = Inl e"
  then show "vast_provision venv k offers = (map o_id offers, None)"
    by (rule vast_provision_exhausted)
next
  assume "RUNPOD_API_KEY env = Some rkey \<and> rkey \<noteq> [] \<and>
    get_ranked_gpus (gpu_types_answer env) 10 = Inr ranked \<and>
    runpod_provision env 0 ranked = (pod_attempts, Inr None)"
  then show "runpod_cmd_separate env denv rargs = (map DeployCall pod_attempts, Inl (SystemExit 1))"
    by (cases ranked) (simp_all add: runpod_cmd_separate_def)
next
  assume "VASTAI_API_KEY venv = Some key \<and> key \<noteq> [] \<and>
    vast_provision venv 0 (get_ranked_offers (bundles_answer venv) 10) = (attempts, None)"
  then show "vast_cmd_separate venv denv args = (map CreateCall attempts, Inl (SystemExit 1))"
    by (cases "get_ranked_offers (bundles_answer venv) 10") (simp_all add: vast_cmd_separate_def Let_def)
next
  show "create_pod response = Inr None \<longleftrightarrow> response = Returns (GraphqlData EmptyPod)"
    by (rule create_pod_None)
next
  show "try_create_pod (Returns (GraphqlData NullPod)) = Inl (AttributeError NoneType_has_no_get)"
    by (rule try_create_pod_NullPod)
next
  assume a: "j < length gpus \<and>
    (\<forall>i<j. try_create_pod (deploy_answer env (k + i) (g_id (gpus ! i))) = Inr None) \<and>
    deploy_answer env (k + j) (g_id (gpus ! j)) = Returns (GraphqlData NullPod)"
  then have "try_create_pod (deploy_answer env (k + j) (g_id (gpus ! j))) =
      Inl (AttributeError NoneType_has_no_get)"
    by (simp add: try_create_pod_NullPod)
  with a show "runpod_provision env k gpus =
      (map g_id (take (Suc j) gpus), Inl (AttributeError NoneType_has_no_get))"
    using runpod_provision_abort by blast
next
  assume "RUNPOD_API_KEY env = Some rkey \<and> rkey \<noteq> [] \<and>
    get_ranked_gpus (gpu_types_answer env) 10 = Inr ranked \<and>
    runpod_provision env 0 ranked = (pod_attempts, Inl exc)"
  then show "runpod_cmd_separate env denv rargs = (map DeployCall pod_attempts, Inl exc)"
    by (cases ranked) (simp_all add: runpod_cmd_separate_def)
qed

theorem provisioning_fallback_witness:
  "(1::nat) < length [gpu_3090, gpu_4090, gpu_t4] \<and>
   try_create_pod (deploy_answer example_runpod_env 0 (g_id gpu_3090)) = Inr None \<and>
   create_pod (deploy_answer example_runpod_env 1 (g_id gpu_4090)) =
     Inr (Some \<lparr>pd_id = ''pod-1'', pd_name = ''demucs-worker''\<rparr>) \<and>
   runpod_provision example_runpod_env 0 [gpu_3090, gpu_4090, gpu_t4] =
     ([''NVIDIA GeForce RTX 3090'', ''NVIDIA GeForce RTX 4090''],
      Inr (Some (\<lparr>pd_id = ''pod-1'', pd_name = ''demucs-worker''\<rparr>, gpu_4090))) \<and>
   runpod_provision example_null_pod_env 0 [gpu_3090, gpu_4090, gpu_t4] =
     ([''NVIDIA GeForce RTX 3090'', ''NVIDIA GeForce RTX 4090''],
      Inl (AttributeError NoneType_has_no_get))"
proof -
  define gpus where "gpus = [gpu_3090, gpu_4090, gpu_t4]"
  have nfirst: "try_create_pod (deploy_answer example_null_pod_env 0 (g_id gpu_3090)) = Inr None"
    by (simp add: example_null_pod_env_def gpu_3090_def try_create_pod_def create_pod_def
          unavailable_example)
  have npre: "1 < length gpus \<and>
    (\<forall>i<1. try_create_pod (deploy_answer example_null_pod_env (0 + i) (g_id (gpus ! i))) = Inr None) \<and>
    deploy_answer example_null_pod_env (0 + 1) (g_id (gpus ! 1)) = Returns (GraphqlData NullPod)"
    using nfirst by (simp add: gpus_def example_null_pod_env_def gpu_4090_def)
  have "runpod_provision example_null_pod_env 0 gpus =
     (map g_id (take (Suc 1) gpus), Inl (AttributeError NoneType_has_no_get))"
    by (rule provisioning_fallback [of _ 1 gpus example_null_pod_env 0, THEN conjunct2,
          THEN conjunct2, THEN conjunct2, THEN conjunct2, THEN conjunct2, THEN conjunct2,
          THEN conjunct2, THEN conjunct2, THEN conjunct2, THEN conjunct1, THEN mp, OF npre])
  moreover have names: "map g_id (take (Suc 1) gpus) =
      [''NVIDIA GeForce RTX 3090'', ''NVIDIA GeForce RTX 4090'']"
    by (simp add: gpus_def gpu_3090_def gpu_4090_def)
  ultimately have null: "runpod_provision example_null_pod_env 0 [gpu_3090, gpu_4090, gpu_t4] =
     ([''NVIDIA GeForce RTX 3090'', ''NVIDIA GeForce RTX 4090''],
      Inl (AttributeError NoneType_has_no_get))"
    by (simp only: gpus_def)
  have first: "try_create_pod (deploy_answer example_runpod_env 0 (g_id gpu_3090)) = Inr None"
    by (simp add: example_runpod_env_def gpu_3090_def try_create_pod_def create_pod_def
          unavailable_example)
  have second: "create_pod (deploy_answer example_runpod_env 1 (g_id gpu_4090)) =
     Inr (Some \<lparr>pd_id = ''pod-1'', pd_name = ''demucs-worker''\<rparr>)"
    by (simp add: example_runpod_env_def gpu_4090_def create_pod_def)
  have pre: "1 < length gpus \<and>
    (\<forall>i<1. try_create_pod (deploy_answer example_runpod_env (0 + i) (g_id (gpus ! i))) = Inr None)"
    using first by (simp add: gpus_def)
  have second': "create_pod (deploy_answer example_runpod_env (0 + 1) (g_id (gpus ! 1))) =
     Inr (Some \<lparr>pd_id = ''pod-1'', pd_name = ''demucs-worker''\<rparr>)"
    using second by (simp add: gpus_def)
  have "runpod_provision example_runpod_env 0 gpus =
     (map g_id (take (Suc 1) gpus), Inr (Some (\<lparr>pd_id = ''pod-1'', pd_name = ''demucs-worker''\<rparr>, gpus ! 1)))"
    by (rule provisioning_fallback [of _ 1 gpus example_runpod_env 0, THEN conjunct2, THEN conjunct1,
          THEN mp, OF pre, THEN conjunct1, THEN spec, THEN mp, OF second'])
  moreover have "map g_id (take (Suc 1) gpus) = [''NVIDIA GeForce RTX 3090'', ''NVIDIA GeForce RTX 4090'']"
    by (simp add: gpus_def gpu_3090_def gpu_4090_def)
  moreover have "gpus ! 1 = gpu_4090" by (simp add: gpus_def)
  ultimately have "runpod_provision example_runpod_env 0 [gpu_3090, gpu_4090, gpu_t4] =
     ([''NVIDIA GeForce RTX 3090'', ''NVIDIA GeForce RTX 4090''],
      Inr (Some (\<lparr>pd_id = ''pod-1'', pd_name = ''demucs-worker''\<rparr>, gpu_4090)))"
    by (simp only: gpus_def)
  then show ?thesis using first second null by simp
qed

text \<open>
  The specification's sentence (a failure that is not about capacity ends provisioning at
  once) does not hold for the Vast.ai client: the first creation is refused with 401, and
  the second offer is tried all the same, and gives the instance.
\<close>

theorem vast_provision_swallows_counterexample:
  "create_instance (put_answer example_vast_env 0 3) 3 =
     Inl (Exception ''Failed to create instance: 401 Client Error: Unauthorized'') \<and>
   vast_provision example_vast_env 0 (get_ranked_offers (bundles_answer example_vast_env) 10) =
     ([3, 1], Some \<lparr>c_id = 7001, c_offer_id = 1, c_success = True\<rparr>)"
  unfolding example_ranked_10 by (simp add: create_instance_def example_vast_env_def)

section \<open>Results about the readiness wait\<close>

lemma mapped_url_Some:
  "mapped_url inst = Inr (Some url) \<Longrightarrow>
     iv_status inst = ''running'' \<and>
     (\<exists>ip ports_map others external_port.
        iv_public_ipaddr inst = Some ip \<and> ip \<noteq> [] \<and> iv_ports inst = Some ports_map \<and>
        ports_map ''8185/tcp'' = Some (HostPort (Some external_port) # others) \<and>
        external_port \<noteq> [] \<and> url = ''http://'' @ ip @ '':'' @ external_port)"
  by (auto simp add: mapped_url_def split: if_splits option.splits list.splits port_binding.splits)

lemma mapped_url_Inl:
  "mapped_url inst = Inl e \<Longrightarrow>
     iv_status inst = ''running'' \<and> e = AttributeError NoneType_has_no_get \<and>
     (iv_ports inst = None \<or>
      (\<exists>ip ports_map others.
         iv_public_ipaddr inst = Some ip \<and> ip \<noteq> [] \<and> iv_ports inst = Some ports_map \<and>
         ports_map ''8185/tcp'' = Some (NullBinding # others)))"
  by (auto simp add: mapped_url_def split: if_splits option.splits list.splits port_binding.splits)

lemma mapped_url_null_ports:
  "iv_status inst = ''running'' \<Longrightarrow> iv_ports inst = None \<Longrightarrow>
     mapped_url inst = Inl (AttributeError NoneType_has_no_get)"
  by (simp add: mapped_url_def)

lemma ready_now_Some:
  "ready_now env k instance_id = Inr (Some url) \<Longrightarrow>
     mapped_url (get_instance (instance_answer env k instance_id)) = Inr (Some url) \<and>
     health_answer env k url = Returns 200"
  by (auto simp add: ready_now_def split: sum.splits option.splits answer.splits if_splits)

lemma ready_now_Inl:
  "ready_now env k instance_id = Inl e \<longleftrightarrow>
     mapped_url (get_instance (instance_answer env k instance_id)) = Inl e"
  by (auto simp add: ready_now_def split: sum.splits option.splits answer.splits if_splits)

lemma ready_now_unhealthy:
  "health_answer env k url \<noteq> Returns 200 \<Longrightarrow>
   mapped_url (get_instance (instance_answer env k instance_id)) = Inr (Some url) \<Longrightarrow>
     ready_now env k instance_id = Inr None"
  by (auto simp add: ready_now_def split: sum.splits option.splits answer.splits if_splits)

lemma wait_for_instance_ready_loop_Some:
  "wait_for_instance_ready_loop env instance_id timeout k elapsed = Inr (Some url) \<Longrightarrow>
   10 * k \<le> elapsed \<Longrightarrow>
     \<exists>j\<ge>k. 10 * j < timeout \<and> ready_now env j instance_id = Inr (Some url)"
proof (induction env instance_id timeout k elapsed rule: wait_for_instance_ready_loop.induct)
  case (1 env instance_id timeout k elapsed)
  from "1.prems"(1) have lt: "elapsed < timeout"
    by (subst (asm) wait_for_instance_ready_loop.simps) (simp split: if_splits)
  show ?case
  proof (cases "ready_now env k instance_id")
    case (Inl e)
    then show ?thesis
      using "1.prems"(1) lt by (subst (asm) wait_for_instance_ready_loop.simps) simp
  next
    case (Inr r)
    show ?thesis
    proof (cases r)
      case None
      then have "wait_for_instance_ready_loop env instance_id timeout (Suc k)
          (elapsed + poll_seconds env k + 10) = Inr (Some url)"
        using "1.prems"(1) lt Inr by (subst (asm) wait_for_instance_ready_loop.simps) simp
      moreover have "10 * Suc k \<le> elapsed + poll_seconds env k + 10" using "1.prems"(2) by simp
      ultimately obtain j where "j \<ge> Suc k" "10 * j < timeout"
          "ready_now env j instance_id = Inr (Some url)"
        using "1.IH" [OF lt Inr None] by blast
      then show ?thesis by (metis Suc_leD)
    next
      case (Some u)
      then have "u = url"
        using "1.prems"(1) lt Inr by (subst (asm) wait_for_instance_ready_loop.simps) simp
      then show ?thesis using Some Inr lt "1.prems"(2) by (intro exI [of _ k]) simp
    qed
  qed
qed

lemma wait_for_instance_ready_loop_Inl:
  "wait_for_instance_ready_loop env instance_id timeout k elapsed = Inl e \<Longrightarrow>
   10 * k \<le> elapsed \<Longrightarrow>
     \<exists>j\<ge>k. 10 * j < timeout \<and> ready_now env j instance_id = Inl e"
proof (induction env instance_id timeout k elapsed rule: wait_for_instance_ready_loop.induct)
  case (1 env instance_id timeout k elapsed)
  from "1.prems"(1) have lt: "elapsed < timeout"
    by (subst (asm) wait_for_instance_ready_loop.simps) (simp split: if_splits)
  show ?case
  proof (cases "ready_now env k instance_id")
    case (Inl e')
    then have "e' = e"
      using "1.prems"(1) lt by (subst (asm) wait_for_instance_ready_loop.simps) simp
    then show ?thesis using Inl lt "1.prems"(2) by (intro exI [of _ k]) simp
  next
    case (Inr r)
    show ?thesis
    proof (cases r)
      case None
      then have "wait_for_instance_ready_loop env instance_id timeout (Suc k)
          (elapsed + poll_seconds env k + 10) = Inl e"
        using "1.prems"(1) lt Inr by (subst (asm) wait_for_instance_ready_loop.simps) simp
      moreover have "10 * Suc k \<le> elapsed + poll_seconds env k + 10" using "1.prems"(2) by simp
      ultimately obtain j where "j \<ge> Suc k" "10 * j < timeout"
          "ready_now env j instance_id = Inl e"
        using "1.IH" [OF lt Inr None] by blast
      then show ?thesis by (metis Suc_leD)
    next
      case (Some u)
      then show ?thesis
        using "1.prems"(1) lt Inr by (subst (asm) wait_for_instance_ready_loop.simps) simp
    qed
  qed
qed

lemma wait_for_instance_ready_loop_None:
  "\<forall>j\<ge>k. ready_now env j instance_id = Inr None \<Longrightarrow>
     wait_for_instance_ready_loop env instance_id timeout k elapsed = Inr None"
proof (induction env instance_id timeout k elapsed rule: wait_for_instance_ready_loop.induct)
  case (1 env instance_id timeout k elapsed)
  show ?case
  proof (cases "elapsed < timeout")
    case False
    then show ?thesis by (subst wait_for_instance_ready_loop.simps) simp
  next
    case True
    have n: "ready_now env k instance_id = Inr None" using "1.prems" by simp
    have "\<forall>j\<ge>Suc k. ready_now env j instance_id = Inr None" using "1.prems" by simp
    from "1.IH" [OF True n refl this] show ?thesis
      using True n by (subst wait_for_instance_ready_loop.simps) simp
  qed
qed

lemma first_healthy_Some:
  "first_healthy env k ports = Inr (Some url) \<Longrightarrow>
     \<exists>port ip public_port. Some port \<in> set ports \<and> p_privatePort port = Some API_PORT \<and>
        p_ip port = Some ip \<and> p_publicPort port = Some public_port \<and> ip \<noteq> [] \<and> public_port \<noteq> 0 \<and>
        url = ''http://'' @ ip @ '':'' @ str_int public_port \<and>
        pod_health_answer env k url = Returns 200"
proof (induction ports)
  case Nil
  then show ?case by simp
next
  case (Cons entry rest)
  show ?case
  proof (cases entry)
    case None
    with Cons.prems show ?thesis by simp
  next
    case (Some port)
    show ?thesis
    proof (cases "first_healthy env k rest = Inr (Some url)")
      case True
      from Cons.IH [OF True] show ?thesis by auto
    next
      case False
      with Cons.prems Some show ?thesis
        by (auto split: if_splits option.splits answer.splits prod.splits)
    qed
  qed
qed

lemma pod_ready_now_Some:
  "pod_ready_now env k pod_id = Inr (Some url) \<Longrightarrow>
     \<exists>view ports. get_pod (pod_answer env k pod_id) = Inr (Some view) \<and>
        pv_runtime view = Some (Some ports) \<and> first_healthy env k ports = Inr (Some url)"
  by (auto simp add: pod_ready_now_def split: sum.splits option.splits)

lemma wait_for_pod_ready_loop_Inr:
  "wait_for_pod_ready_loop env pod_id timeout k elapsed = Inr url \<Longrightarrow> 5 * k \<le> elapsed \<Longrightarrow>
     \<exists>j\<ge>k. 5 * j < timeout \<and> pod_ready_now env j pod_id = Inr (Some url)"
proof (induction env pod_id timeout k elapsed rule: wait_for_pod_ready_loop.induct)
  case (1 env pod_id timeout k elapsed)
  from "1.prems"(1) have lt: "elapsed < timeout"
    by (subst (asm) wait_for_pod_ready_loop.simps) (simp split: if_splits)
  show ?case
  proof (cases "pod_ready_now env k pod_id")
    case (Inl e)
    then show ?thesis
      using "1.prems"(1) lt by (subst (asm) wait_for_pod_ready_loop.simps) simp
  next
    case (Inr r)
    show ?thesis
    proof (cases r)
      case None
      then have "wait_for_pod_ready_loop env pod_id timeout (Suc k) (elapsed + pod_poll_seconds env k + 5) = Inr url"
        using "1.prems"(1) lt Inr by (subst (asm) wait_for_pod_ready_loop.simps) simp
      moreover have "5 * Suc k \<le> elapsed + pod_poll_seconds env k + 5" using "1.prems"(2) by simp
      ultimately obtain j where "j \<ge> Suc k" "5 * j < timeout" "pod_ready_now env j pod_id = Inr (Some url)"
        using "1.IH" [OF lt Inr None] by blast
      then show ?thesis by (metis Suc_leD)
    next
      case (Some u)
      then have "u = url"
        using "1.prems"(1) lt Inr by (subst (asm) wait_for_pod_ready_loop.simps) simp
      then show ?thesis using Some Inr lt "1.prems"(2) by (intro exI [of _ k]) simp
    qed
  qed
qed

lemma wait_for_pod_ready_loop_timeout:
  "\<forall>j\<ge>k. pod_ready_now env j pod_id = Inr None \<Longrightarrow>
     wait_for_pod_ready_loop env pod_id timeout k elapsed =
       Inl (TimeoutError (''Pod '' @ pod_id @ '' did not become ready in '' @ str_nat timeout @ ''s''))"
proof (induction env pod_id timeout k elapsed rule: wait_for_pod_ready_loop.induct)
  case (1 env pod_id timeout k elapsed)
  show ?case
  proof (cases "elapsed < timeout")
    case False
    then show ?thesis by (subst wait_for_pod_ready_loop.simps) simp
  next
    case True
    have n: "pod_ready_now env k pod_id = Inr None" using "1.prems" by simp
    have "\<forall>j\<ge>Suc k. pod_ready_now env j pod_id = Inr None" using "1.prems" by simp
    from "1.IH" [OF True n refl this] show ?thesis
      using True n by (subst wait_for_pod_ready_loop.simps) simp
  qed
qed

lemma example_ready_now:
  "ready_now example_vast_env k 7001 = Inr (Some ''http://203.0.113.5:40123'')"
  by (simp add: ready_now_def get_instance_def view_of_def mapped_url_def example_vast_env_def
        example_instance_def)

lemma example_wait_for_instance_ready:
  "wait_for_instance_ready example_vast_env 7001 600 = Inr (Some ''http://203.0.113.5:40123'')"
  unfolding wait_for_instance_ready_def
  by (subst wait_for_instance_ready_loop.simps) (simp add: example_ready_now)

lemma example_null_ports_view:
  "iv_status (get_instance (instance_answer example_null_ports_env k 7001)) = ''running'' \<and>
   iv_ports (get_instance (instance_answer example_null_ports_env k 7001)) = None"
  by (simp add: get_instance_def view_of_def example_null_ports_env_def example_vast_env_def
        example_instance_def)

lemma example_pod_ready_now:
  "pod_ready_now example_runpod_env k ''pod-1'' = Inr (Some ''http://198.51.100.7:30185'')"
  by (simp add: pod_ready_now_def get_pod_def example_runpod_env_def API_PORT_def str_int_def)

lemma example_wait_for_pod_ready:
  "wait_for_pod_ready example_runpod_env ''pod-1'' 300 = Inr ''http://198.51.100.7:30185''"
  unfolding wait_for_pod_ready_def
  by (subst wait_for_pod_ready_loop.simps) (simp add: example_pod_ready_now)

text \<open>
  C3, as the code has it.  Vast.ai client: the wait returns a URL only if at some poll
  within the timeout the instance status was \<^verbatim>\<open>running\<close>, the port map had a binding for
  port 8185 with a host port, the URL is that address and the health probe on it answered
  200; a poll whose probe raises or answers anything else is not the end, the loop goes on
  with the next poll while time is left; when every poll is passed over, none succeeding and
  none raising, the wait returns \<^verbatim>\<open>None\<close>: no endpoint, and no exception either.  RunPod
  client: the wait returns a URL only if at some poll within the timeout the pod's runtime
  listed a port with private port 8185, an address and a public port, and the health probe
  on that URL answered 200 (the pod's status is not read); when every poll is answered and
  none succeeds, the wait raises a \<^verbatim>\<open>TimeoutError\<close> whose text has the pod id in it.
  The Vast.ai wait raises in one way only: an \<^verbatim>\<open>AttributeError\<close>, at a poll within the
  timeout where the instance is running and either its ports are \<^verbatim>\<open>null\<close> or it has a
  public address and the first binding of port 8185 is \<^verbatim>\<open>null\<close>; a running instance
  with \<^verbatim>\<open>null\<close> ports ends the wait so at the poll that sees it.
\<close>

theorem readiness_as_coded:
  "(wait_for_instance_ready env instance_id timeout = Inr (Some url) \<longrightarrow>
      (\<exists>k ip ports_map others external_port.
         10 * k < timeout \<and>
         iv_status (get_instance (instance_answer env k instance_id)) = ''running'' \<and>
         iv_public_ipaddr (get_instance (instance_answer env k instance_id)) = Some ip \<and>
         iv_ports (get_instance (instance_answer env k instance_id)) = Some ports_map \<and>
         ports_map ''8185/tcp'' = Some (HostPort (Some external_port) # others) \<and>
         url = ''http://'' @ ip @ '':'' @ external_port \<and>
         health_answer env k url = Returns 200)) \<and>
   (mapped_url (get_instance (instance_answer env k instance_id)) = Inr (Some u) \<and>
    health_answer env k u \<noteq> Returns 200 \<and> elapsed < timeout \<longrightarrow>
      wait_for_instance_ready_loop env instance_id timeout k elapsed =
      wait_for_instance_ready_loop env instance_id timeout (Suc k) (elapsed + poll_seconds env k + 10)) \<and>
   ((\<forall>j. ready_now env j instance_id = Inr None) \<longrightarrow>
      wait_for_instance_ready env instance_id timeout = Inr None) \<and>
   (wait_for_pod_ready renv pod_id timeout = Inr url \<longrightarrow>
      (\<exists>k view ports port ip public_port.
         5 * k < timeout \<and>
         get_pod (pod_answer renv k pod_id) = Inr (Some view) \<and>
         pv_runtime view = Some (Some ports) \<and> Some port \<in> set ports \<and>
         p_privatePort port = Some API_PORT \<and> p_ip port = Some ip \<and>
         p_publicPort port = Some public_port \<and>
         url = ''http://'' @ ip @ '':'' @ str_int public_port \<and>
         pod_health_answer renv k url = Returns 200)) \<and>
   ((\<forall>j. pod_ready_now renv j pod_id = Inr None) \<longrightarrow>
      wait_for_pod_ready renv pod_id timeout =
        Inl (TimeoutError (''Pod '' @ pod_id @ '' did not become ready in '' @ str_nat timeout @ ''s''))) \<and>
   (wait_for_instance_ready env instance_id timeout = Inl exc \<longrightarrow>
      exc = AttributeError NoneType_has_no_get \<and>
      (\<exists>k. 10 * k < timeout \<and>
         iv_status (get_instance (instance_answer env k instance_id)) = ''running'' \<and>
         (iv_ports (get_instance (instance_answer env k instance_id)) = None \<or>
          (\<exists>ip ports_map others.
             iv_public_ipaddr (get_instance (instance_answer env k instance_id)) = Some ip \<and>
             ip \<noteq> [] \<and>
             iv_ports (get_instance (instance_answer env k instance_id)) = Some ports_map \<and>
             ports_map ''8185/tcp'' = Some (NullBinding # others))))) \<and>
   (elapsed < timeout \<and>
    iv_status (get_instance (instance_answer env k instance_id)) = ''running'' \<and>
    iv_ports (get_instance (instance_answer env k instance_id)) = None \<longrightarrow>
      wait_for_instance_ready_loop env instance_id timeout k elapsed =
        Inl (AttributeError NoneType_has_no_get))"
proof (intro conjI impI)
  assume "wait_for_instance_ready env instance_id timeout = Inr (Some url)"
  then obtain k where k: "10 * k < timeout" "ready_now env k instance_id = Inr (Some url)"
    unfolding wait_for_instance_ready_def
    using wait_for_instance_ready_loop_Some [of env instance_id timeout 0 0 url] by auto
  from ready_now_Some [OF k(2)]
  have m: "mapped_url (get_instance (instance_answer env k instance_id)) = Inr (Some url)"
    and h: "health_answer env k url = Returns 200" by simp_all
  from mapped_url_Some [OF m] k(1) h
  show "\<exists>k ip ports_map others external_port.
         10 * k < timeout \<and>
         iv_status (get_instance (instance_answer env k instance_id)) = ''running'' \<and>
         iv_public_ipaddr (get_instance (instance_answer env k instance_id)) = Some ip \<and>
         iv_ports (get_instance (instance_answer env k instance_id)) = Some ports_map \<and>
         ports_map ''8185/tcp'' = Some (HostPort (Some external_port) # others) \<and>
         url = ''http://'' @ ip @ '':'' @ external_port \<and>
         health_answer env k url = Returns 200"
    by blast
next
  assume a: "mapped_url (get_instance (instance_answer env k instance_id)) = Inr (Some u) \<and>
    health_answer env k u \<noteq> Returns 200 \<and> elapsed < timeout"
  then have "ready_now env k instance_id = Inr None" using ready_now_unhealthy by blast
  then show "wait_for_instance_ready_loop env instance_id timeout k elapsed =
      wait_for_instance_ready_loop env instance_id timeout (Suc k) (elapsed + poll_seconds env k + 10)"
    using a by (subst wait_for_instance_ready_loop.simps) simp
next
  assume "\<forall>j. ready_now env j instance_id = Inr None"
  then show "wait_for_instance_ready env instance_id timeout = Inr None"
    unfolding wait_for_instance_ready_def by (intro wait_for_instance_ready_loop_None) simp
next
  assume "wait_for_pod_ready renv pod_id timeout = Inr url"
  then obtain k where k: "5 * k < timeout" "pod_ready_now renv k pod_id = Inr (Some url)"
    unfolding wait_for_pod_ready_def
    using wait_for_pod_ready_loop_Inr [of renv pod_id timeout 0 0 url] by auto
  from pod_ready_now_Some [OF k(2)] obtain view ports where
    v: "get_pod (pod_answer renv k pod_id) = Inr (Some view)" "pv_runtime view = Some (Some ports)"
       "first_healthy renv k ports = Inr (Some url)" by blast
  from first_healthy_Some [OF v(3)] v(1,2) k(1)
  show "\<exists>k view ports port ip public_port.
         5 * k < timeout \<and>
         get_pod (pod_answer renv k pod_id) = Inr (Some view) \<and>
         pv_runtime view = Some (Some ports) \<and> Some port \<in> set ports \<and>
         p_privatePort port = Some API_PORT \<and> p_ip port = Some ip \<and>
         p_publicPort port = Some public_port \<and>
         url = ''http://'' @ ip @ '':'' @ str_int public_port \<and>
         pod_health_answer renv k url = Returns 200"
    by blast
next
  assume "\<forall>j. pod_ready_now renv j pod_id = Inr None"
  then show "wait_for_pod_ready renv pod_id timeout =
        Inl (TimeoutError (''Pod '' @ pod_id @ '' did not become ready in '' @ str_nat timeout @ ''s''))"
    unfolding wait_for_pod_ready_def by (intro wait_for_pod_ready_loop_timeout) simp
next
  assume "wait_for_instance_ready env instance_id timeout = Inl exc"
  then obtain k where k: "10 * k < timeout" "ready_now env k instance_id = Inl exc"
    unfolding wait_for_instance_ready_def
    using wait_for_instance_ready_loop_Inl [of env instance_id timeout 0 0 exc] by auto
  from k(2) have m: "mapped_url (get_instance (instance_answer env k instance_id)) = Inl exc"
    by (simp add: ready_now_Inl)
  from mapped_url_Inl [OF m] show "exc = AttributeError NoneType_has_no_get" by simp
  from mapped_url_Inl [OF m] k(1)
  show "\<exists>k. 10 * k < timeout \<and>
         iv_status (get_instance (instance_answer env k instance_id)) = ''running'' \<and>
         (iv_ports (get_instance (instance_answer env k instance_id)) = None \<or>
          (\<exists>ip ports_map others.
             iv_public_ipaddr (get_instance (instance_answer env k instance_id)) = Some ip \<and>
             ip \<noteq> [] \<and>
             iv_ports (get_instance (instance_answer env k instance_id)) = Some ports_map \<and>
             ports_map ''8185/tcp'' = Some (NullBinding # others)))"
    by blast
next
  assume a: "elapsed < timeout \<and>
    iv_status (get_instance (instance_answer env k instance_id)) = ''running'' \<and>
    iv_ports (get_instance (instance_answer env k instance_id)) = None"
  then have "ready_now env k instance_id = Inl (AttributeError NoneType_has_no_get)"
    by (simp add: ready_now_Inl mapped_url_null_ports)
  then show "wait_for_instance_ready_loop env instance_id timeout k elapsed =
        Inl (AttributeError NoneType_has_no_get)"
    using a by (subst wait_for_instance_ready_loop.simps) simp
qed

theorem readiness_as_coded_witness:
  "wait_for_instance_ready example_vast_env 7001 600 = Inr (Some ''http://203.0.113.5:40123'') \<and>
   (\<exists>k. 10 * k < (600::nat) \<and>
      iv_status (get_instance (instance_answer example_vast_env k 7001)) = ''running'' \<and>
      health_answer example_vast_env k ''http://203.0.113.5:40123'' = Returns 200) \<and>
   wait_for_pod_ready example_runpod_env ''pod-1'' 300 = Inr ''http://198.51.100.7:30185'' \<and>
   (\<exists>k. 5 * k < (300::nat) \<and>
      pod_health_answer example_runpod_env k ''http://198.51.100.7:30185'' = Returns 200) \<and>
   wait_for_instance_ready example_null_ports_env 7001 600 =
     Inl (AttributeError NoneType_has_no_get)"
proof -
  note T = readiness_as_coded [of example_vast_env 7001 600 "''http://203.0.113.5:40123''" 0
      "[]" 0 example_runpod_env "''pod-1''"]
  from T [THEN conjunct1, THEN mp, OF example_wait_for_instance_ready]
  have a: "\<exists>k. 10 * k < (600::nat) \<and>
      iv_status (get_instance (instance_answer example_vast_env k 7001)) = ''running'' \<and>
      health_answer example_vast_env k ''http://203.0.113.5:40123'' = Returns 200"
    by blast
  note U = readiness_as_coded [of example_vast_env 7001 300 "''http://198.51.100.7:30185''" 0
      "[]" 0 example_runpod_env "''pod-1''"]
  from U [THEN conjunct2, THEN conjunct2, THEN conjunct2, THEN conjunct1, THEN mp,
      OF example_wait_for_pod_ready]
  have b: "\<exists>k. 5 * k < (300::nat) \<and>
      pod_health_answer example_runpod_env k ''http://198.51.100.7:30185'' = Returns 200"
    by blast
  note V = readiness_as_coded [of example_null_ports_env 7001 600 "[]" 0 "[]" 0
      example_runpod_env "''pod-1''"]
  have pre: "(0::nat) < 600 \<and>
    iv_status (get_instance (instance_answer example_null_ports_env 0 7001)) = ''running'' \<and>
    iv_ports (get_instance (instance_answer example_null_ports_env 0 7001)) = None"
    using example_null_ports_view [of 0] by simp
  from V [THEN conjunct2, THEN conjunct2, THEN conjunct2, THEN conjunct2, THEN conjunct2,
      THEN conjunct2, THEN mp, OF pre]
  have c: "wait_for_instance_ready example_null_ports_env 7001 600 =
     Inl (AttributeError NoneType_has_no_get)"
    by (simp only: wait_for_instance_ready_def)
  show ?thesis
    using example_wait_for_instance_ready a example_wait_for_pod_ready b c by (intro conjI)
qed

text \<open>
  The specification's sentence (on timeout an error carrying the instance id is raised) does
  not hold for the Vast.ai client: with a health probe that answers 503 at every poll the
  wait returns \<^verbatim>\<open>None\<close>, and what \<^verbatim>\<open>cmd_separate\<close> then raises does not name the
  instance.
\<close>

theorem readiness_timeout_counterexample:
  "wait_for_instance_ready (example_vast_env\<lparr>health_answer := \<lambda>k url. Returns 503\<rparr>) 7001 600 =
     Inr None \<and>
   vast_separate_body (example_vast_env\<lparr>health_answer := \<lambda>k url. Returns 503\<rparr>)
     example_demucs_env example_vast_args 7001 = Inl (Exception ''Instance failed to start'')"
proof -
  have n: "\<forall>j\<ge>0. ready_now (example_vast_env\<lparr>health_answer := \<lambda>k url. Returns 503\<rparr>) j 7001 = Inr None"
    by (simp add: ready_now_def get_instance_def view_of_def mapped_url_def example_vast_env_def
          example_instance_def)
  have w: "wait_for_instance_ready (example_vast_env\<lparr>health_answer := \<lambda>k url. Returns 503\<rparr>) 7001 600 =
      Inr None"
    unfolding wait_for_instance_ready_def by (rule wait_for_instance_ready_loop_None [OF n])
  show ?thesis using w by (simp add: vast_separate_body_def)
qed

section \<open>Results about the job wait\<close>

lemma fetches_append: "fetches (xs @ ys) = fetches xs @ fetches ys"
  by (induction xs rule: fetches.induct) simp_all

lemma fetches_show_progress: "fetches (show_progress status) = []"
  by (simp add: show_progress_def Let_def)

lemma show_progress_iff:
  "show_progress status \<noteq> [] \<longleftrightarrow>
     (\<exists>d t. js_details status = Some d \<and> total_segments d = Some t \<and> 0 < t)"
  by (auto simp add: show_progress_def Let_def split: option.splits)

lemma show_progress_events:
  "\<forall>ev \<in> set (show_progress status). \<exists>c t. ev = ProgressShown c t \<and> 0 < t"
  by (simp add: show_progress_def Let_def)

lemma wait_for_job_loop_step:
  assumes "elapsed < timeout" and "job_status_answer denv k job_id = Returns status"
    and "js_status status \<noteq> ''completed''" and "js_status status \<noteq> ''failed''"
    and "(if stream_logs then stream_step denv k job_id log_offset else ([], log_offset, False)) =
           (events, log_offset', stream_logs')"
  shows "wait_for_job_loop denv job_id timeout k elapsed log_offset stream_logs =
     (events @ (if \<not> stream_logs' then show_progress status else []) @
        fst (wait_for_job_loop denv job_id timeout (Suc k)
               (elapsed + job_poll_seconds denv k + 5) log_offset' stream_logs'),
      snd (wait_for_job_loop denv job_id timeout (Suc k)
               (elapsed + job_poll_seconds denv k + 5) log_offset' stream_logs'))"
  using assms by (subst wait_for_job_loop.simps) (simp add: case_prod_unfold)

lemma wait_for_job_loop_terminal:
  assumes "elapsed < timeout" and "job_status_answer denv k job_id = Returns status"
    and "js_status status = ''completed'' \<or> js_status status = ''failed''"
  shows "wait_for_job_loop denv job_id timeout k elapsed log_offset stream_logs =
     (fst (final_flush denv k job_id log_offset stream_logs),
      (case snd (final_flush denv k job_id log_offset stream_logs) of
         Some e \<Rightarrow> Inl e
       | None \<Rightarrow>
           if js_status status = ''completed'' then Inr status
           else Inl (Exception (''Job failed: '' @ str_opt (js_error status)))))"
  using assms
  by (subst wait_for_job_loop.simps) (auto simp add: case_prod_unfold split: option.splits)

lemma wait_for_job_loop_no_streaming:
  "\<not> stream_logs \<Longrightarrow>
     \<forall>ev \<in> set (fst (wait_for_job_loop denv job_id timeout k elapsed log_offset stream_logs)).
       \<exists>c t. ev = ProgressShown c t \<and> 0 < t"
proof (induction denv job_id timeout k elapsed log_offset stream_logs rule: wait_for_job_loop.induct)
  case (1 denv job_id timeout k elapsed log_offset stream_logs)
  show ?case
  proof (cases "elapsed < timeout")
    case False
    then show ?thesis by (subst wait_for_job_loop.simps) simp
  next
    case True
    show ?thesis
    proof (cases "job_status_answer denv k job_id")
      case (Raises e)
      then show ?thesis using True by (subst wait_for_job_loop.simps) simp
    next
      case (Returns status)
      show ?thesis
      proof (cases "js_status status = ''completed'' \<or> js_status status = ''failed''")
        case t: True
        show ?thesis
          unfolding wait_for_job_loop_terminal [OF True Returns t]
          using "1.prems" by (simp add: final_flush_def)
      next
        case False
        then have nc: "js_status status \<noteq> ''completed''" and nf: "js_status status \<noteq> ''failed''"
          by simp_all
        have st: "(if stream_logs then stream_step denv k job_id log_offset else ([], log_offset, False)) =
                  ([], log_offset, False)"
          using "1.prems" by simp
        have ih: "\<forall>ev \<in> set (fst (wait_for_job_loop denv job_id timeout (Suc k)
                    (elapsed + job_poll_seconds denv k + 5) log_offset False)).
                  \<exists>c t. ev = ProgressShown c t \<and> 0 < t"
          using "1.IH" [OF True Returns nc nf st [symmetric] refl] by simp
        show ?thesis
          unfolding wait_for_job_loop_step [OF True Returns nc nf st]
          using ih show_progress_events [of status] by auto
      qed
    qed
  qed
qed

lemma stream_step_fetch:
  assumes "\<forall>k n ld l. job_logs_answer denv k job_id n = Returns ld \<and> ld_logs ld = Some l \<and> l \<noteq> []
             \<longrightarrow> ld_offset ld = Some (n + length l)"
    and "stream_step denv k job_id log_offset = (events, log_offset', stream_logs')"
  shows "\<exists>l. fetches events = [(log_offset, l)] \<and> log_offset' = log_offset + length l"
proof (cases "job_logs_answer denv k job_id log_offset")
  case (Raises e)
  then show ?thesis using assms(2) by (auto simp add: stream_step_def)
next
  case (Returns ld)
  show ?thesis
  proof (cases "ld_logs ld")
    case None
    then show ?thesis using assms(2) Returns by (auto simp add: stream_step_def)
  next
    case (Some l)
    show ?thesis
    proof (cases "l = []")
      case True
      then show ?thesis using assms(2) Returns Some by (auto simp add: stream_step_def)
    next
      case False
      then have "ld_offset ld = Some (log_offset + length l)"
        using assms(1) Returns Some by blast
      then show ?thesis using assms(2) Returns Some False by (auto simp add: stream_step_def)
    qed
  qed
qed

lemma final_flush_fetch:
  "fetches (fst (final_flush denv k job_id log_offset stream_logs)) = [] \<or>
   (\<exists>l. fetches (fst (final_flush denv k job_id log_offset stream_logs)) = [(log_offset, l)])"
  by (auto simp add: final_flush_def split: answer.splits option.splits)

lemma ranges_in_order_Cons:
  "ranges_in_order fs \<Longrightarrow> \<forall>f \<in> set fs. n + length l \<le> fst f \<Longrightarrow> ranges_in_order ((n, l) # fs)"
  by (simp add: ranges_in_order_def)

lemma wait_for_job_loop_ranges:
  assumes "\<forall>k n ld l. job_logs_answer denv k job_id n = Returns ld \<and> ld_logs ld = Some l \<and> l \<noteq> []
             \<longrightarrow> ld_offset ld = Some (n + length l)"
  shows "ranges_in_order (fetches (fst (wait_for_job_loop denv job_id timeout k elapsed log_offset stream_logs))) \<and>
         (\<forall>f \<in> set (fetches (fst (wait_for_job_loop denv job_id timeout k elapsed log_offset stream_logs))).
            log_offset \<le> fst f)"
  using assms
proof (induction denv job_id timeout k elapsed log_offset stream_logs rule: wait_for_job_loop.induct)
  case (1 denv job_id timeout k elapsed log_offset stream_logs)
  show ?case
  proof (cases "elapsed < timeout")
    case False
    then show ?thesis by (subst wait_for_job_loop.simps, subst wait_for_job_loop.simps) (simp add: ranges_in_order_def)
  next
    case True
    show ?thesis
    proof (cases "job_status_answer denv k job_id")
      case (Raises e)
      then show ?thesis using True
        by (subst wait_for_job_loop.simps, subst wait_for_job_loop.simps) (simp add: ranges_in_order_def)
    next
      case (Returns status)
      show ?thesis
      proof (cases "js_status status = ''completed'' \<or> js_status status = ''failed''")
        case t: True
        show ?thesis
          unfolding wait_for_job_loop_terminal [OF True Returns t]
          using final_flush_fetch [of denv k job_id log_offset stream_logs]
          by (auto simp add: ranges_in_order_def)
      next
        case False
        then have nc: "js_status status \<noteq> ''completed''" and nf: "js_status status \<noteq> ''failed''"
          by simp_all
        obtain events log_offset' stream_logs' where
          st: "(if stream_logs then stream_step denv k job_id log_offset else ([], log_offset, False)) =
                 (events, log_offset', stream_logs')"
          by (metis prod_cases3)
        let ?later = "fetches (fst (wait_for_job_loop denv job_id timeout (Suc k)
                    (elapsed + job_poll_seconds denv k + 5) log_offset' stream_logs'))"
        have ih: "ranges_in_order ?later \<and> (\<forall>f \<in> set ?later. log_offset' \<le> fst f)"
          using "1.IH" [OF True Returns nc nf st [symmetric] refl "1.prems"] by simp
        have f: "fetches (events @ (if \<not> stream_logs' then show_progress status else []) @
                   fst (wait_for_job_loop denv job_id timeout (Suc k)
                    (elapsed + job_poll_seconds denv k + 5) log_offset' stream_logs')) =
                 fetches events @ ?later"
          by (simp add: fetches_append fetches_show_progress)
        show ?thesis
        proof (cases stream_logs)
          case False
          then have "events = []" "log_offset' = log_offset" using st by simp_all
          then show ?thesis
            unfolding wait_for_job_loop_step [OF True Returns nc nf st] fst_conv f
            using ih by simp
        next
          case s: True
          then have "stream_step denv k job_id log_offset = (events, log_offset', stream_logs')"
            using st by simp
          from stream_step_fetch [OF "1.prems" this]
          obtain l where l: "fetches events = [(log_offset, l)]" "log_offset' = log_offset + length l"
            by blast
          have "ranges_in_order ((log_offset, l) # ?later)"
            using ih l(2) by (intro ranges_in_order_Cons) simp_all
          moreover have "\<forall>f \<in> set ((log_offset, l) # ?later). log_offset \<le> fst f"
            using ih l(2) by auto
          ultimately show ?thesis
            unfolding wait_for_job_loop_step [OF True Returns nc nf st] fst_conv f l(1)
            by simp
        qed
      qed
    qed
  qed
qed

lemma ranges_in_order_sorted: "ranges_in_order fs \<Longrightarrow> sorted (map fst fs)"
proof (induction fs)
  case Nil
  show ?case by simp
next
  case (Cons f fs)
  from Cons.prems have a: "\<forall>g \<in> set fs. fst f + length (snd f) \<le> fst g" and r: "ranges_in_order fs"
    by (simp_all add: ranges_in_order_def)
  from a have "\<forall>g \<in> set fs. fst f \<le> fst g" using add_leD1 by blast
  then show ?case using Cons.IH [OF r] by simp
qed

lemma wait_for_job_loop_flush_ok:
  assumes "elapsed < timeout" and "job_status_answer denv k job_id = Returns status"
    and "js_status status = ''completed'' \<or> js_status status = ''failed''"
    and "stream_logs \<longrightarrow> (\<exists>ld. job_logs_answer denv k job_id log_offset = Returns ld)"
  shows "snd (wait_for_job_loop denv job_id timeout k elapsed log_offset stream_logs) =
           (if js_status status = ''completed'' then Inr status
            else Inl (Exception (''Job failed: '' @ str_opt (js_error status)))) \<and>
         length (fetches (fst (wait_for_job_loop denv job_id timeout k elapsed log_offset stream_logs))) =
           (if stream_logs then 1 else 0)"
  unfolding wait_for_job_loop_terminal [OF assms(1,2,3)]
  using assms(4) by (auto simp add: final_flush_def split: option.splits)

lemma runpod_wait_for_job_loop_terminal:
  assumes "elapsed < timeout" and "job_status_answer denv k job_id = Returns job"
    and "js_status job = ''completed'' \<or> js_status job = ''failed''"
  shows "runpod_wait_for_job_loop denv job_id timeout k elapsed =
           (if js_status job = ''completed'' then Inr job
            else Inl (Exception (''Job failed: '' @ str_opt (js_error job))))"
  using assms by (subst runpod_wait_for_job_loop.simps) auto

text \<open>
  C4, as the code has it.  The cursor is whatever the service reported with the last
  non-empty answer.  When every non-empty log answer reports the offset asked for plus the
  number of bytes it returned, the offsets of the log fetches of one wait are
  non-decreasing and the byte ranges delivered are in order, none delivered twice.  When
  the log fetch of a poll that found the job still going raises, streaming is off from
  then on: that poll records the failure and shows the progress line, and no later poll of
  the wait fetches logs, each showing the progress line only.  The progress line is shown
  exactly when the status carries a positive \<^verbatim>\<open>total_segments\<close>, with
  \<^verbatim>\<open>completed_segments\<close> (0 when missing) and that total.
\<close>

theorem log_streaming_as_coded:
  "((\<forall>k n ld l. job_logs_answer denv k job_id n = Returns ld \<and> ld_logs ld = Some l \<and> l \<noteq> []
        \<longrightarrow> ld_offset ld = Some (n + length l)) \<longrightarrow>
      sorted (map fst (fetches (fst (wait_for_job denv job_id timeout stream_logs)))) \<and>
      ranges_in_order (fetches (fst (wait_for_job denv job_id timeout stream_logs)))) \<and>
   (elapsed < timeout \<and> job_status_answer denv k job_id = Returns status \<and>
    js_status status \<noteq> ''completed'' \<and> js_status status \<noteq> ''failed'' \<and>
    job_logs_answer denv k job_id log_offset = Raises err \<longrightarrow>
      wait_for_job_loop denv job_id timeout k elapsed log_offset True =
        ([LogFetch log_offset [], StreamingFailed err] @ show_progress status @
           fst (wait_for_job_loop denv job_id timeout (Suc k)
                  (elapsed + job_poll_seconds denv k + 5) log_offset False),
         snd (wait_for_job_loop denv job_id timeout (Suc k)
                  (elapsed + job_poll_seconds denv k + 5) log_offset False))) \<and>
   (\<forall>ev \<in> set (fst (wait_for_job_loop denv job_id timeout k elapsed log_offset False)).
      \<exists>c t. ev = ProgressShown c t \<and> 0 < t) \<and>
   (elapsed < timeout \<and> job_status_answer denv k job_id = Returns status \<and>
    js_status status \<noteq> ''completed'' \<and> js_status status \<noteq> ''failed'' \<longrightarrow>
      wait_for_job_loop denv job_id timeout k elapsed log_offset False =
        (show_progress status @
           fst (wait_for_job_loop denv job_id timeout (Suc k)
                  (elapsed + job_poll_seconds denv k + 5) log_offset False),
         snd (wait_for_job_loop denv job_id timeout (Suc k)
                  (elapsed + job_poll_seconds denv k + 5) log_offset False))) \<and>
   (js_details status = Some d \<and> total_segments d = Some t \<and> 0 < t \<longrightarrow>
      show_progress status = [ProgressShown (case completed_segments d of None \<Rightarrow> 0 | Some c \<Rightarrow> c) t]) \<and>
   (show_progress status \<noteq> [] \<longleftrightarrow>
      (\<exists>d t. js_details status = Some d \<and> total_segments d = Some t \<and> 0 < t))"
proof (intro conjI impI)
  assume c: "\<forall>k n ld l. job_logs_answer denv k job_id n = Returns ld \<and> ld_logs ld = Some l \<and> l \<noteq> []
        \<longrightarrow> ld_offset ld = Some (n + length l)"
  show "ranges_in_order (fetches (fst (wait_for_job denv job_id timeout stream_logs)))"
    unfolding wait_for_job_def using wait_for_job_loop_ranges [OF c] by blast
  then show "sorted (map fst (fetches (fst (wait_for_job denv job_id timeout stream_logs))))"
    by (rule ranges_in_order_sorted)
next
  assume a: "elapsed < timeout \<and> job_status_answer denv k job_id = Returns status \<and>
    js_status status \<noteq> ''completed'' \<and> js_status status \<noteq> ''failed'' \<and>
    job_logs_answer denv k job_id log_offset = Raises err"
  then have st: "(if True then stream_step denv k job_id log_offset else ([], log_offset, False)) =
      ([LogFetch log_offset [], StreamingFailed err], log_offset, False)"
    by (simp add: stream_step_def)
  from a have 1: "elapsed < timeout" and 2: "job_status_answer denv k job_id = Returns status"
    and 3: "js_status status \<noteq> ''completed''" and 4: "js_status status \<noteq> ''failed''" by simp_all
  show "wait_for_job_loop denv job_id timeout k elapsed log_offset True =
        ([LogFetch log_offset [], StreamingFailed err] @ show_progress status @
           fst (wait_for_job_loop denv job_id timeout (Suc k)
                  (elapsed + job_poll_seconds denv k + 5) log_offset False),
         snd (wait_for_job_loop denv job_id timeout (Suc k)
                  (elapsed + job_poll_seconds denv k + 5) log_offset False))"
    unfolding wait_for_job_loop_step [OF 1 2 3 4 st] by simp
next
  show "\<forall>ev \<in> set (fst (wait_for_job_loop denv job_id timeout k elapsed log_offset False)).
      \<exists>c t. ev = ProgressShown c t \<and> 0 < t"
    by (rule wait_for_job_loop_no_streaming) simp
next
  assume a: "elapsed < timeout \<and> job_status_answer denv k job_id = Returns status \<and>
    js_status status \<noteq> ''completed'' \<and> js_status status \<noteq> ''failed''"
  have st: "(if False then stream_step denv k job_id log_offset else ([], log_offset, False)) =
      ([], log_offset, False)"
    by simp
  from a have 1: "elapsed < timeout" and 2: "job_status_answer denv k job_id = Returns status"
    and 3: "js_status status \<noteq> ''completed''" and 4: "js_status status \<noteq> ''failed''" by simp_all
  show "wait_for_job_loop denv job_id timeout k elapsed log_offset False =
        (show_progress status @
           fst (wait_for_job_loop denv job_id timeout (Suc k)
                  (elapsed + job_poll_seconds denv k + 5) log_offset False),
         snd (wait_for_job_loop denv job_id timeout (Suc k)
                  (elapsed + job_poll_seconds denv k + 5) log_offset False))"
    unfolding wait_for_job_loop_step [OF 1 2 3 4 st] by simp
next
  assume "js_details status = Some d \<and> total_segments d = Some t \<and> 0 < t"
  then show "show_progress status = [ProgressShown (case completed_segments d of None \<Rightarrow> 0 | Some c \<Rightarrow> c) t]"
    by (simp add: show_progress_def Let_def)
next
  show "show_progress status \<noteq> [] \<longleftrightarrow>
      (\<exists>d t. js_details status = Some d \<and> total_segments d = Some t \<and> 0 < t)"
    by (rule show_progress_iff)
qed

lemma example_wait_for_job:
  "wait_for_job example_demucs_env ''job-1'' 1800 True =
     ([LogFetch 0 ''0123456789'', LogFetch 10 ''abcdefghij'', LogFetch 20 ''klmnopqrst''],
      Inr \<lparr>js_status = ''completed'', js_error = None,
           js_details = Some \<lparr>completed_segments = Some 2, total_segments = Some 2\<rparr>\<rparr>)"
  by (simp add: wait_for_job_def wait_for_job_loop.simps example_demucs_env_def example_log_def
        final_flush_def stream_step_def)

theorem log_streaming_as_coded_witness:
  "fetches (fst (wait_for_job example_demucs_env ''job-1'' 1800 True)) =
     [(0, ''0123456789''), (10, ''abcdefghij''), (20, ''klmnopqrst'')] \<and>
   sorted (map fst (fetches (fst (wait_for_job example_demucs_env ''job-1'' 1800 True)))) \<and>
   ranges_in_order (fetches (fst (wait_for_job example_demucs_env ''job-1'' 1800 True))) \<and>
   fst (wait_for_job (example_demucs_env\<lparr>job_logs_answer := \<lambda>k job_id n. Raises ''503 Server Error''\<rparr>)
          ''job-1'' 1800 True) =
     [LogFetch 0 [], StreamingFailed ''503 Server Error'', ProgressShown 0 2, ProgressShown 1 2]"
proof -
  have c: "\<forall>k n ld l. job_logs_answer example_demucs_env k ''job-1'' n = Returns ld \<and>
             ld_logs ld = Some l \<and> l \<noteq> [] \<longrightarrow> ld_offset ld = Some (n + length l)"
    by (auto simp add: example_demucs_env_def)
  note T = log_streaming_as_coded [of example_demucs_env "''job-1''" 1800 True]
  from T [THEN conjunct1, THEN mp, OF c]
  have a: "sorted (map fst (fetches (fst (wait_for_job example_demucs_env ''job-1'' 1800 True))))"
    and b: "ranges_in_order (fetches (fst (wait_for_job example_demucs_env ''job-1'' 1800 True)))"
    by simp_all
  have f: "fetches (fst (wait_for_job example_demucs_env ''job-1'' 1800 True)) =
     [(0, ''0123456789''), (10, ''abcdefghij''), (20, ''klmnopqrst'')]"
    unfolding example_wait_for_job by simp
  have e: "fst (wait_for_job (example_demucs_env\<lparr>job_logs_answer := \<lambda>k job_id n. Raises ''503 Server Error''\<rparr>)
          ''job-1'' 1800 True) =
     [LogFetch 0 [], StreamingFailed ''503 Server Error'', ProgressShown 0 2, ProgressShown 1 2]"
    by (simp add: wait_for_job_def wait_for_job_loop.simps example_demucs_env_def
          final_flush_def stream_step_def show_progress_def)
  show ?thesis using f a b e by (intro conjI)
qed

text \<open>
  The specification's sentence (the offset never decreases, for any sequence of fetches) does
  not hold: the client takes over the offset of the answer as it is, so a service that
  reports 10 and then 3 moves the cursor back, and the bytes from 3 on are fetched again.
\<close>

theorem log_offset_decreases_counterexample:
  "map fst (fetches (fst (wait_for_job
      (example_demucs_env\<lparr>job_logs_answer := \<lambda>k job_id n. Returns
          \<lparr>ld_logs = Some ''x'', ld_offset = Some (if k = 0 then 10 else 3)\<rparr>\<rparr>)
      ''job-1'' 1800 True))) = [0, 10, 3] \<and>
   \<not> sorted (map fst (fetches (fst (wait_for_job
      (example_demucs_env\<lparr>job_logs_answer := \<lambda>k job_id n. Returns
          \<lparr>ld_logs = Some ''x'', ld_offset = Some (if k = 0 then 10 else 3)\<rparr>\<rparr>)
      ''job-1'' 1800 True))))"
  by (simp add: wait_for_job_def wait_for_job_loop.simps example_demucs_env_def
        final_flush_def stream_step_def)

text \<open>
  C5.  On a terminal status with streaming on, the final log fetch is made outside any
  \<^verbatim>\<open>try\<close>.  When that fetch raises, the wait ends with the exception of the fetch: a
  completed job is not returned, and a failed job is not reported with the error the
  service gave.  (When the fetch returns, or streaming is off, the wait does what the claim
  says: \<open>wait_for_job_loop_flush_ok\<close>; so does the RunPod client, which has no log fetch:
  \<open>runpod_wait_for_job_loop_terminal\<close>.)
\<close>

theorem final_flush_error_hides_completed_job:
  "wait_for_job
     (example_demucs_env\<lparr>
        job_status_answer := \<lambda>k job_id. Returns \<lparr>js_status = ''completed'', js_error = None, js_details = None\<rparr>,
        job_logs_answer := \<lambda>k job_id n. Raises ''500 Server Error''\<rparr>)
     ''job-1'' 1800 True =
   ([LogFetch 0 []], Inl (RequestException ''500 Server Error'')) \<and>
   wait_for_job
     (example_demucs_env\<lparr>
        job_status_answer := \<lambda>k job_id. Returns \<lparr>js_status = ''failed'', js_error = Some ''CUDA out of memory'', js_details = None\<rparr>,
        job_logs_answer := \<lambda>k job_id n. Raises ''500 Server Error''\<rparr>)
     ''job-1'' 1800 True =
   ([LogFetch 0 []], Inl (RequestException ''500 Server Error''))"
  by (simp add: wait_for_job_def wait_for_job_loop.simps example_demucs_env_def final_flush_def)

section \<open>Results about the \<^verbatim>\<open>separate\<close> command\<close>

lemma destroyed_creates: "destroyed (map CreateCall attempts @ calls) = destroyed calls"
  by (induction attempts) simp_all

lemma terminated_deploys: "terminated (map DeployCall attempts @ calls) = terminated calls"
  by (induction attempts) simp_all

lemma vast_provision_Some_nonempty:
  "vast_provision env k offers = (attempts, Some instance) \<Longrightarrow> offers \<noteq> []"
  by (cases offers) simp_all

lemma runpod_provision_Some_nonempty:
  "runpod_provision env k gpus = (attempts, Inr (Some r)) \<Longrightarrow> gpus \<noteq> []"
  by (cases gpus) simp_all

text \<open>
  C1.  In every run of the \<^verbatim>\<open>separate\<close> command that creates an instance, the market
  calls are the creation attempts followed, unless the caller asked to keep the instance,
  by exactly one destroy call, on the instance created; with the keep flag there is no
  destroy call.  This holds whatever the body of the run did (success, failed job, timeout
  of the readiness wait or of the job wait, any other exception): the result of the run is
  the result of the body.  The same holds for the RunPod client and its terminate call.
\<close>

theorem teardown_exactly_once:
  "(VASTAI_API_KEY env = Some key \<and> key \<noteq> [] \<and>
    vast_provision env 0 (get_ranked_offers (bundles_answer env) 10) = (attempts, Some instance) \<longrightarrow>
      destroyed (fst (vast_cmd_separate env denv args)) =
        (if va_keep_instance args then [] else [c_id instance]) \<and>
      fst (vast_cmd_separate env denv args) =
        map CreateCall attempts @ (if va_keep_instance args then [] else [DestroyCall (c_id instance)]) \<and>
      snd (vast_cmd_separate env denv args) = vast_separate_body env denv args (c_id instance)) \<and>
   (RUNPOD_API_KEY renv = Some rkey \<and> rkey \<noteq> [] \<and>
    get_ranked_gpus (gpu_types_answer renv) 10 = Inr gpus \<and>
    runpod_provision renv 0 gpus = (pod_attempts, Inr (Some (pod, gpu))) \<longrightarrow>
      terminated (fst (runpod_cmd_separate renv denv rargs)) =
        (if ra_keep_pod rargs then [] else [pd_id pod]) \<and>
      fst (runpod_cmd_separate renv denv rargs) =
        map DeployCall pod_attempts @ (if ra_keep_pod rargs then [] else [TerminateCall (pd_id pod)]))"
proof (intro conjI impI)
  assume a: "VASTAI_API_KEY env = Some key \<and> key \<noteq> [] \<and>
    vast_provision env 0 (get_ranked_offers (bundles_answer env) 10) = (attempts, Some instance)"
  then have n: "get_ranked_offers (bundles_answer env) 10 \<noteq> []"
    using vast_provision_Some_nonempty by blast
  show c: "fst (vast_cmd_separate env denv args) =
        map CreateCall attempts @ (if va_keep_instance args then [] else [DestroyCall (c_id instance)])"
    using a n by (simp add: vast_cmd_separate_def Let_def)
  show "destroyed (fst (vast_cmd_separate env denv args)) =
        (if va_keep_instance args then [] else [c_id instance])"
    unfolding c destroyed_creates by simp
  show "snd (vast_cmd_separate env denv args) = vast_separate_body env denv args (c_id instance)"
    using a n by (simp add: vast_cmd_separate_def Let_def)
next
  assume a: "RUNPOD_API_KEY renv = Some rkey \<and> rkey \<noteq> [] \<and>
    get_ranked_gpus (gpu_types_answer renv) 10 = Inr gpus \<and>
    runpod_provision renv 0 gpus = (pod_attempts, Inr (Some (pod, gpu)))"
  then have n: "gpus \<noteq> []" using runpod_provision_Some_nonempty by blast
  show c: "fst (runpod_cmd_separate renv denv rargs) =
        map DeployCall pod_attempts @ (if ra_keep_pod rargs then [] else [TerminateCall (pd_id pod)])"
    using a n by (simp add: runpod_cmd_separate_def Let_def)
  show "terminated (fst (runpod_cmd_separate renv denv rargs)) =
        (if ra_keep_pod rargs then [] else [pd_id pod])"
    unfolding c terminated_deploys by simp
qed

lemma example_vast_provision:
  "vast_provision example_vast_env 0 (get_ranked_offers (bundles_answer example_vast_env) 10) =
     ([3, 1], Some \<lparr>c_id = 7001, c_offer_id = 1, c_success = True\<rparr>)"
  unfolding example_ranked_10 by (simp add: create_instance_def example_vast_env_def)

lemma example_runpod_provision:
  "runpod_provision example_runpod_env 0 [gpu_3090, gpu_4090, gpu_t4] =
     ([''NVIDIA GeForce RTX 3090'', ''NVIDIA GeForce RTX 4090''],
      Inr (Some (\<lparr>pd_id = ''pod-1'', pd_name = ''demucs-worker''\<rparr>, gpu_4090)))"
  by (simp add: example_runpod_env_def gpu_3090_def gpu_4090_def try_create_pod_def create_pod_def
        unavailable_example)

lemma example_post_job: "post_job example_demucs_env = Inr ''job-1''"
  by (simp add: post_job_def example_demucs_env_def)

lemma example_make_dir: "make_dir example_demucs_env = Inr ()"
  by (simp add: make_dir_def example_demucs_env_def)

lemma example_get_result: "get_result example_demucs_env ''job-1'' = Inr ''ID3 instrumental''"
  by (simp add: get_result_def example_demucs_env_def)

lemma example_vast_body:
  "vast_separate_body example_vast_env example_demucs_env args 7001 = Inr ''ID3 instrumental''"
  by (simp add: vast_separate_body_def example_wait_for_instance_ready example_post_job
        example_wait_for_job example_make_dir example_get_result)

lemma example_vast_body_failed:
  "vast_separate_body example_vast_env
     (example_demucs_env\<lparr>job_status_answer := \<lambda>k job_id. Returns
        \<lparr>js_status = ''failed'', js_error = Some ''CUDA out of memory'', js_details = None\<rparr>\<rparr>)
     args 7001 = Inl (Exception ''Job failed: CUDA out of memory'')"
  unfolding vast_separate_body_def example_wait_for_instance_ready
  by (simp add: post_job_def example_demucs_env_def wait_for_job_def wait_for_job_loop.simps
        final_flush_def str_opt_def)

theorem teardown_exactly_once_witness:
  "vast_cmd_separate example_vast_env example_demucs_env example_vast_args =
     ([CreateCall 3, CreateCall 1, DestroyCall 7001], Inr ''ID3 instrumental'') \<and>
   destroyed (fst (vast_cmd_separate example_vast_env example_demucs_env example_vast_args)) = [7001] \<and>
   vast_cmd_separate example_vast_env
     (example_demucs_env\<lparr>job_status_answer := \<lambda>k job_id. Returns
        \<lparr>js_status = ''failed'', js_error = Some ''CUDA out of memory'', js_details = None\<rparr>\<rparr>)
     example_vast_args =
     ([CreateCall 3, CreateCall 1, DestroyCall 7001], Inl (Exception ''Job failed: CUDA out of memory'')) \<and>
   destroyed (fst (vast_cmd_separate example_vast_env example_demucs_env
     (example_vast_args\<lparr>va_keep_instance := True\<rparr>))) = [] \<and>
   terminated (fst (runpod_cmd_separate example_runpod_env example_demucs_env example_runpod_args)) = [''pod-1'']"
proof -
  have key: "VASTAI_API_KEY example_vast_env = Some ''secret'' \<and> ''secret'' \<noteq> [] \<and>
    vast_provision example_vast_env 0 (get_ranked_offers (bundles_answer example_vast_env) 10) =
      ([3, 1], Some \<lparr>c_id = 7001, c_offer_id = 1, c_success = True\<rparr>)"
    using example_vast_provision by (simp add: example_vast_env_def)
  have rkey: "RUNPOD_API_KEY example_runpod_env = Some ''secret'' \<and> ''secret'' \<noteq> [] \<and>
    get_ranked_gpus (gpu_types_answer example_runpod_env) 10 = Inr [gpu_3090, gpu_4090, gpu_t4] \<and>
    runpod_provision example_runpod_env 0 [gpu_3090, gpu_4090, gpu_t4] =
      ([''NVIDIA GeForce RTX 3090'', ''NVIDIA GeForce RTX 4090''],
       Inr (Some (\<lparr>pd_id = ''pod-1'', pd_name = ''demucs-worker''\<rparr>, gpu_4090)))"
    using example_ranked_gpus example_runpod_provision by (simp add: example_runpod_env_def)
  note A = teardown_exactly_once [of example_vast_env "''secret''" "[3, 1]"
      "\<lparr>c_id = 7001, c_offer_id = 1, c_success = True\<rparr>" example_demucs_env example_vast_args
      example_runpod_env "''secret''" "[gpu_3090, gpu_4090, gpu_t4]"
      "[''NVIDIA GeForce RTX 3090'', ''NVIDIA GeForce RTX 4090'']"
      "\<lparr>pd_id = ''pod-1'', pd_name = ''demucs-worker''\<rparr>" gpu_4090 example_runpod_args]
  note A1 = A [THEN conjunct1, THEN mp, OF key]
  note A2 = A [THEN conjunct2, THEN mp, OF rkey]
  have 1: "vast_cmd_separate example_vast_env example_demucs_env example_vast_args =
     ([CreateCall 3, CreateCall 1, DestroyCall 7001], Inr ''ID3 instrumental'')"
    using A1 example_vast_body [of example_vast_args]
    by (simp add: prod_eq_iff example_vast_args_def)
  have 2: "destroyed (fst (vast_cmd_separate example_vast_env example_demucs_env example_vast_args)) = [7001]"
    using A1 by (simp add: example_vast_args_def)
  note B = teardown_exactly_once [of example_vast_env "''secret''" "[3, 1]"
      "\<lparr>c_id = 7001, c_offer_id = 1, c_success = True\<rparr>"
      "example_demucs_env\<lparr>job_status_answer := \<lambda>k job_id. Returns
        \<lparr>js_status = ''failed'', js_error = Some ''CUDA out of memory'', js_details = None\<rparr>\<rparr>"
      example_vast_args
      example_runpod_env "''secret''" "[gpu_3090, gpu_4090, gpu_t4]"
      "[''NVIDIA GeForce RTX 3090'', ''NVIDIA GeForce RTX 4090'']"
      "\<lparr>pd_id = ''pod-1'', pd_name = ''demucs-worker''\<rparr>" gpu_4090 example_runpod_args]
  have 3: "vast_cmd_separate example_vast_env
     (example_demucs_env\<lparr>job_status_answer := \<lambda>k job_id. Returns
        \<lparr>js_status = ''failed'', js_error = Some ''CUDA out of memory'', js_details = None\<rparr>\<rparr>)
     example_vast_args =
     ([CreateCall 3, CreateCall 1, DestroyCall 7001], Inl (Exception ''Job failed: CUDA out of memory''))"
    using B [THEN conjunct1, THEN mp, OF key] example_vast_body_failed [of example_vast_args]
    by (simp add: prod_eq_iff example_vast_args_def)
  note C = teardown_exactly_once [of example_vast_env "''secret''" "[3, 1]"
      "\<lparr>c_id = 7001, c_offer_id = 1, c_success = True\<rparr>" example_demucs_env
      "example_vast_args\<lparr>va_keep_instance := True\<rparr>"
      example_runpod_env "''secret''" "[gpu_3090, gpu_4090, gpu_t4]"
      "[''NVIDIA GeForce RTX 3090'', ''NVIDIA GeForce RTX 4090'']"
      "\<lparr>pd_id = ''pod-1'', pd_name = ''demucs-worker''\<rparr>" gpu_4090 example_runpod_args]
  have 4: "destroyed (fst (vast_cmd_separate example_vast_env example_demucs_env
     (example_vast_args\<lparr>va_keep_instance := True\<rparr>))) = []"
    using C [THEN conjunct1, THEN mp, OF key] by simp
  have 5: "terminated (fst (runpod_cmd_separate example_runpod_env example_demucs_env example_runpod_args)) = [''pod-1'']"
    using A2 by (simp add: example_runpod_args_def)
  show ?thesis using 1 2 3 4 5 by (intro conjI)
qed

section \<open>Results about the service API\<close>

text \<open>
  C10.  A \<^verbatim>\<open>POST /job\<close> request creates a job record, with status pending, exactly when the
  models-ready marker file exists and the requested job id is not yet in the job table.
  In every other case the request fails with an HTTP error, 409 for a duplicate id and 503
  when the models are not ready, and the server state is unchanged.  The health endpoint
  answers 200 whatever the state of the marker file.
\<close>

theorem create_job_iff_ready_and_fresh:
  "((\<exists>resp. fst (create_job env request s) = Inr resp) \<longleftrightarrow>
      (check_models_ready env \<and> JOBS s (requested_job_id env request) = None)) \<and>
   ((\<exists>resp. fst (create_job env request s) = Inr resp) \<longrightarrow>
      JOBS (snd (create_job env request s)) =
        (JOBS s)(requested_job_id env request \<mapsto> new_job env request) \<and>
      job_status (new_job env request) = ''pending'') \<and>
   ((\<forall>resp. fst (create_job env request s) \<noteq> Inr resp) \<longrightarrow>
      snd (create_job env request s) = s \<and>
      (\<exists>d. fst (create_job env request s) =
         Inl (HTTPException (if JOBS s (requested_job_id env request) \<noteq> None then 409 else 503) d))) \<and>
   fst (health_check env) = 200"
  by (simp add: create_job_def Let_def new_job_def health_check_def)

theorem create_job_iff_ready_and_fresh_witness:
  "fst (create_job \<lparr>models_ready_file_exists = True, uuid4 = ''0f8fad5b-d9cb-469f-a165-70867728950e'',
                    isoformat_now = ''2024-01-01T00:00:00''\<rparr>
         \<lparr>req_input_url = ''https://example.com/a.mp3'', req_interval_cut = None,
          req_all_stems = False, req_job_id = None\<rparr>
         \<lparr>JOBS = Map.empty, background_tasks = []\<rparr>)
     = Inr \<lparr>resp_job_id = ''0f8fad5b'', resp_status = ''pending'',
            resp_message = ''Job 0f8fad5b created. Use GET /job/0f8fad5b to check progress.''\<rparr> \<and>
   map_option job_status
     (JOBS (snd (create_job \<lparr>models_ready_file_exists = True, uuid4 = ''0f8fad5b-d9cb-469f-a165-70867728950e'',
                    isoformat_now = ''2024-01-01T00:00:00''\<rparr>
         \<lparr>req_input_url = ''https://example.com/a.mp3'', req_interval_cut = None,
          req_all_stems = False, req_job_id = None\<rparr>
         \<lparr>JOBS = Map.empty, background_tasks = []\<rparr>)) ''0f8fad5b'') = Some ''pending'' \<and>
   fst (create_job \<lparr>models_ready_file_exists = False, uuid4 = ''0f8fad5b-d9cb-469f-a165-70867728950e'',
                    isoformat_now = ''2024-01-01T00:00:00''\<rparr>
         \<lparr>req_input_url = ''https://example.com/a.mp3'', req_interval_cut = None,
          req_all_stems = False, req_job_id = Some ''j1''\<rparr>
         \<lparr>JOBS = Map.empty, background_tasks = []\<rparr>)
     = Inl (HTTPException 503 ''Models not ready yet. Please wait.'') \<and>
   snd (create_job \<lparr>models_ready_file_exists = False, uuid4 = ''0f8fad5b-d9cb-469f-a165-70867728950e'',
                    isoformat_now = ''2024-01-01T00:00:00''\<rparr>
         \<lparr>req_input_url = ''https://example.com/a.mp3'', req_interval_cut = None,
          req_all_stems = False, req_job_id = Some ''j1''\<rparr>
         \<lparr>JOBS = Map.empty, background_tasks = []\<rparr>)
     = \<lparr>JOBS = Map.empty, background_tasks = []\<rparr> \<and>
   fst (health_check \<lparr>models_ready_file_exists = False, uuid4 = ''0f8fad5b-d9cb-469f-a165-70867728950e'',
                    isoformat_now = ''2024-01-01T00:00:00''\<rparr>) = 200"
  using create_job_iff_ready_and_fresh
    [of "\<lparr>models_ready_file_exists = True, uuid4 = ''0f8fad5b-d9cb-469f-a165-70867728950e'',
                    isoformat_now = ''2024-01-01T00:00:00''\<rparr>"
        "\<lparr>req_input_url = ''https://example.com/a.mp3'', req_interval_cut = None,
          req_all_stems = False, req_job_id = None\<rparr>"
        "\<lparr>JOBS = Map.empty, background_tasks = []\<rparr>"]
    create_job_iff_ready_and_fresh
    [of "\<lparr>models_ready_file_exists = False, uuid4 = ''0f8fad5b-d9cb-469f-a165-70867728950e'',
                    isoformat_now = ''2024-01-01T00:00:00''\<rparr>"
        "\<lparr>req_input_url = ''https://example.com/a.mp3'', req_interval_cut = None,
          req_all_stems = False, req_job_id = Some ''j1''\<rparr>"
        "\<lparr>JOBS = Map.empty, background_tasks = []\<rparr>"]
  by (simp add: create_job_def Let_def new_job_def health_check_def requested_job_id_def
        check_models_ready_def)

end
